theory Spec2Isabelle
  imports Complex_Main "HOL-Library.Word" "HOL-Library.Monad_Syntax" "HOL-Library.Log_Nat"
begin

unbundle bit_operations_syntax

section \<open>QSFP-DD module memory decoding (qsfp-dd.c, qsfp-dd.h)\<close>

text \<open>
  The C functions take \<^verbatim>\<open>const __u8 *id\<close>, the dump of the module's memory, and some of them
  \<^verbatim>\<open>__u32 eeprom_len\<close>, the length the caller declares for it. The dump is modelled as the
  list of the bytes of the array that \<^verbatim>\<open>id\<close> points to (called \<open>idb\<close> below, since \<open>id\<close> is
  the identity function of HOL); the declared length is a separate 32-bit argument, as in the C.

  No function of qsfp-dd.c compares an offset with a length before it reads \<^verbatim>\<open>id[offset]\<close>.
  A read inside the array returns the byte. A read beyond the array is undefined behaviour
  in C; the model returns \<open>None\<close> for it, and \<open>None\<close> propagates through every function
  (the option monad), so a result \<open>Some out\<close> means that every read of the run was inside
  the array. A result \<open>None\<close> says that some read of the run was beyond the array, and no
  more: the C program has printed the lines that come before that read, which \<open>None\<close> does
  not record.
\<close>

type_synonym u8 = "8 word"
type_synonym u16 = "16 word"
type_synonym u32 = "32 word"

definition rd :: "u8 list \<Rightarrow> nat \<Rightarrow> u8 option" where
  \<comment> \<open>\<^verbatim>\<open>id[off]\<close>\<close>
  "rd idb off = (if off < length idb then Some (idb ! off) else None)"

definition u16_be :: "u8 \<Rightarrow> u8 \<Rightarrow> u16" where
  \<comment> \<open>Modelled from the spec: the macro \<^verbatim>\<open>OFFSET_TO_U16\<close> is defined in sff-common.h, which is
      not among the sources. The spec's \<open>u16_be\<close>: two consecutive bytes, most-significant
      first.\<close>
  "u16_be hi lo = push_bit 8 (ucast hi) OR ucast lo"

definition OFFSET_TO_U16 :: "u8 list \<Rightarrow> nat \<Rightarrow> u16 option" where
  \<comment> \<open>\<^verbatim>\<open>OFFSET_TO_U16(offset)\<close> reads \<^verbatim>\<open>id[offset]\<close> and \<^verbatim>\<open>id[(offset) + 1]\<close>\<close>
  "OFFSET_TO_U16 idb off = do {
     hi \<leftarrow> rd idb off;
     lo \<leftarrow> rd idb (off + 1);
     Some (u16_be hi lo)
   }"

definition OFFSET_TO_TEMP :: "u8 list \<Rightarrow> nat \<Rightarrow> int option" where
  \<comment> \<open>\<^verbatim>\<open>#define OFFSET_TO_TEMP(offset) ((__s16)OFFSET_TO_U16(offset))\<close>\<close>
  "OFFSET_TO_TEMP idb off = map_option sint (OFFSET_TO_U16 idb off)"

definition temp_celsius :: "int \<Rightarrow> rat" where
  \<comment> \<open>Modelled from the spec: the macro \<^verbatim>\<open>PRINT_TEMP\<close>, which formats a temperature, is defined
      in sff-common.h, which is not among the sources. The spec: a temperature is a signed
      16-bit value, 1/256 degree Celsius per LSB.\<close>
  "temp_celsius t = of_int t / 256"

subsection \<open>Floating-point values\<close>

text \<open>
  The lengths are computed in \<^verbatim>\<open>float\<close> and the wavelengths in \<^verbatim>\<open>double\<close>. A floating-point
  value is modelled by the rational number it denotes, and an operation by the exact
  operation followed by rounding to the nearest number with a \<open>p\<close>-bit significand, ties to
  even (\<open>p = 24\<close> for \<^verbatim>\<open>float\<close>, \<open>p = 53\<close> for \<^verbatim>\<open>double\<close>). The exponent is not bounded: every
  value computed below is zero or lies between \<open>10\<^sup>-\<^sup>3\<close> and \<open>10\<^sup>5\<close>, far from overflow and
  from the subnormal numbers.
\<close>

definition round_nearest_even :: "rat \<Rightarrow> int" where
  "round_nearest_even q =
     (let n = \<lfloor>q\<rfloor>; r = q - of_int n
      in if r < 1 / 2 then n else if 1 / 2 < r then n + 1 else if even n then n else n + 1)"

definition pow2 :: "int \<Rightarrow> rat" where
  "pow2 k = (if 0 \<le> k then 2 ^ nat k else 1 / 2 ^ nat (- k))"

definition float_round :: "nat \<Rightarrow> rat \<Rightarrow> rat" where
  \<comment> \<open>\<open>e\<close> is the exponent of the last place: \<open>2\<^sup>p\<^sup>-\<^sup>1 \<le> |x| / 2\<^sup>e < 2\<^sup>p\<close>\<close>
  "float_round p x =
     (if x = 0 then 0
      else let (a, b) = quotient_of \<bar>x\<bar>;
               k = bitlen a - bitlen b;
               e = (if pow2 k \<le> \<bar>x\<bar> then k else k - 1) - (int p - 1)
           in of_int (round_nearest_even (x / pow2 e)) * pow2 e)"

definition f32 :: "rat \<Rightarrow> rat" where
  "f32 x = float_round 24 x"

definition f64 :: "rat \<Rightarrow> rat" where
  "f64 x = float_round 53 x"

subsection \<open>Printed lines\<close>

text \<open>
  Every function prints with \<^verbatim>\<open>printf\<close>. The model returns the list of the lines printed,
  each with its label and the value handed to the format, before it is formatted. The
  macros \<^verbatim>\<open>PRINT_TEMP\<close>, \<^verbatim>\<open>PRINT_VCC\<close>, \<^verbatim>\<open>PRINT_BIAS\<close> and \<^verbatim>\<open>PRINT_xX_PWR\<close> are defined in
  sff-common.h, which is not among the sources: a call of one of them is a line that holds
  the macro's two arguments.
\<close>

datatype line =
    Line string string    \<comment> \<open>\<^verbatim>\<open>printf("\t%-41s : %s\n", label, text)\<close>, also with a fixed text\<close>
  | Km string rat         \<comment> \<open>\<^verbatim>\<open>printf("\t%-41s : %0.2fkm\n", label, val)\<close>\<close>
  | Tech string u8 string \<comment> \<open>\<^verbatim>\<open>printf("\t%-41s : 0x%02x", label, code)\<close> and the description after it\<close>
  | Db string u8          \<comment> \<open>\<^verbatim>\<open>printf("\t%-41s : %udb\n", label, byte)\<close>\<close>
  | Nm string rat         \<comment> \<open>\<^verbatim>\<open>printf("\t%-41s : %.3lfnm\n", label, val)\<close>\<close>
  | PRINT_TEMP string int
  | PRINT_VCC string u16
  | PRINT_BIAS string u16
  | PRINT_xX_PWR string u16

subsection \<open>Constants of qsfp-dd.h used by the length decoders\<close>

definition QSFP_DD_CBL_ASM_LEN_OFFSET :: nat where "QSFP_DD_CBL_ASM_LEN_OFFSET = 0xCA"
definition QSFP_DD_6300M_MAX_LEN :: u8 where "QSFP_DD_6300M_MAX_LEN = 0xFF"

definition QSFP_DD_MULTIPLIER_00 :: u8 where "QSFP_DD_MULTIPLIER_00 = 0x00"
definition QSFP_DD_MULTIPLIER_01 :: u8 where "QSFP_DD_MULTIPLIER_01 = 0x40"
definition QSFP_DD_MULTIPLIER_10 :: u8 where "QSFP_DD_MULTIPLIER_10 = 0x80"
definition QSFP_DD_MULTIPLIER_11 :: u8 where "QSFP_DD_MULTIPLIER_11 = 0xC0"
definition QSFP_DD_LEN_MUL_MASK :: u8 where "QSFP_DD_LEN_MUL_MASK = 0xC0"
definition QSFP_DD_LEN_VAL_MASK :: u8 where "QSFP_DD_LEN_VAL_MASK = 0x3F"

definition PAG01H_OFFSET :: nat where "PAG01H_OFFSET = 0x01 * 0x80"
definition QSFP_DD_SMF_LEN_OFFSET :: nat where "QSFP_DD_SMF_LEN_OFFSET = PAG01H_OFFSET + 0x84"

subsection \<open>Cable assembly length and SMF length\<close>

definition qsfp_dd_show_cbl_asm_len :: "u8 list \<Rightarrow> line list option" where
  "qsfp_dd_show_cbl_asm_len idb = do {
     b \<leftarrow> rd idb QSFP_DD_CBL_ASM_LEN_OFFSET;
     if b = QSFP_DD_6300M_MAX_LEN then Some [Line ''Cable assembly length'' ''> 6.3km'']
     else do {
       let sel = b AND QSFP_DD_LEN_MUL_MASK;
       let mul = (if sel = QSFP_DD_MULTIPLIER_00 then f32 (1 / 10)
                  else if sel = QSFP_DD_MULTIPLIER_01 then f32 1
                  else if sel = QSFP_DD_MULTIPLIER_10 then f32 10
                  else if sel = QSFP_DD_MULTIPLIER_11 then f32 100
                  else f32 1);
       let val = f32 (of_nat (unat (b AND QSFP_DD_LEN_VAL_MASK)));
       let val = f32 (val * mul);
       Some [Km ''Cable assembly length'' val]
     }
   }"

definition qsfp_dd_print_smf_cbl_len :: "u8 list \<Rightarrow> line list option" where
  "qsfp_dd_print_smf_cbl_len idb = do {
     b \<leftarrow> rd idb QSFP_DD_SMF_LEN_OFFSET;
     let sel = b AND QSFP_DD_LEN_MUL_MASK;
     let mul = (if sel = QSFP_DD_MULTIPLIER_00 then f32 (1 / 10)
                else if sel = QSFP_DD_MULTIPLIER_01 then f32 1
                else f32 1);
     let val = f32 (of_nat (unat (b AND QSFP_DD_LEN_VAL_MASK)));
     let val = f32 (val * mul);
     Some [Km ''Length (SMF)'' val]
   }"

subsection \<open>Media interface technology\<close>

definition QSFP_DD_COPPER_ATT_5GHZ :: nat where "QSFP_DD_COPPER_ATT_5GHZ = 0xCC"
definition QSFP_DD_COPPER_ATT_7GHZ :: nat where "QSFP_DD_COPPER_ATT_7GHZ = 0xCD"
definition QSFP_DD_COPPER_ATT_12P9GHZ :: nat where "QSFP_DD_COPPER_ATT_12P9GHZ = 0xCE"
definition QSFP_DD_COPPER_ATT_25P8GHZ :: nat where "QSFP_DD_COPPER_ATT_25P8GHZ = 0xCF"

definition QSFP_DD_MEDIA_INTF_TECH_OFFSET :: nat where "QSFP_DD_MEDIA_INTF_TECH_OFFSET = 0xD4"
definition QSFP_DD_850_VCSEL :: u8 where "QSFP_DD_850_VCSEL = 0x00"
definition QSFP_DD_1310_VCSEL :: u8 where "QSFP_DD_1310_VCSEL = 0x01"
definition QSFP_DD_1550_VCSEL :: u8 where "QSFP_DD_1550_VCSEL = 0x02"
definition QSFP_DD_1310_FP :: u8 where "QSFP_DD_1310_FP = 0x03"
definition QSFP_DD_1310_DFB :: u8 where "QSFP_DD_1310_DFB = 0x04"
definition QSFP_DD_1550_DFB :: u8 where "QSFP_DD_1550_DFB = 0x05"
definition QSFP_DD_1310_EML :: u8 where "QSFP_DD_1310_EML = 0x06"
definition QSFP_DD_1550_EML :: u8 where "QSFP_DD_1550_EML = 0x07"
definition QSFP_DD_OTHERS :: u8 where "QSFP_DD_OTHERS = 0x08"
definition QSFP_DD_1490_DFB :: u8 where "QSFP_DD_1490_DFB = 0x09"
definition QSFP_DD_COPPER_UNEQUAL :: u8 where "QSFP_DD_COPPER_UNEQUAL = 0x0A"
definition QSFP_DD_COPPER_PASS_EQUAL :: u8 where "QSFP_DD_COPPER_PASS_EQUAL = 0x0B"
definition QSFP_DD_COPPER_NF_EQUAL :: u8 where "QSFP_DD_COPPER_NF_EQUAL = 0x0C"
definition QSFP_DD_COPPER_F_EQUAL :: u8 where "QSFP_DD_COPPER_F_EQUAL = 0x0D"
definition QSFP_DD_COPPER_N_EQUAL :: u8 where "QSFP_DD_COPPER_N_EQUAL = 0x0E"
definition QSFP_DD_COPPER_LINEAR_EQUAL :: u8 where "QSFP_DD_COPPER_LINEAR_EQUAL = 0x0F"

definition QSFP_DD_NOM_WAVELENGTH_MSB :: nat where "QSFP_DD_NOM_WAVELENGTH_MSB = PAG01H_OFFSET + 0x8A"
definition QSFP_DD_NOM_WAVELENGTH_LSB :: nat where "QSFP_DD_NOM_WAVELENGTH_LSB = PAG01H_OFFSET + 0x8B"
definition QSFP_DD_WAVELENGTH_TOL_MSB :: nat where "QSFP_DD_WAVELENGTH_TOL_MSB = PAG01H_OFFSET + 0x8C"
definition QSFP_DD_WAVELENGTH_TOL_LSB :: nat where "QSFP_DD_WAVELENGTH_TOL_LSB = PAG01H_OFFSET + 0x8D"

definition mit_description :: "u8 \<Rightarrow> string" where
  \<comment> \<open>the \<^verbatim>\<open>switch\<close> of \<^verbatim>\<open>qsfp_dd_show_mit_compliance\<close>; it has no \<^verbatim>\<open>default\<close>, so a code
      above \<^verbatim>\<open>0x0F\<close> prints nothing\<close>
  "mit_description t =
     (if t = QSFP_DD_850_VCSEL then '' (850 nm VCSEL)''
      else if t = QSFP_DD_1310_VCSEL then '' (1310 nm VCSEL)''
      else if t = QSFP_DD_1550_VCSEL then '' (1550 nm VCSEL)''
      else if t = QSFP_DD_1310_FP then '' (1310 nm FP)''
      else if t = QSFP_DD_1310_DFB then '' (1310 nm DFB)''
      else if t = QSFP_DD_1550_DFB then '' (1550 nm DFB)''
      else if t = QSFP_DD_1310_EML then '' (1310 nm EML)''
      else if t = QSFP_DD_1550_EML then '' (1550 nm EML)''
      else if t = QSFP_DD_OTHERS then '' (Others/Undefined)''
      else if t = QSFP_DD_1490_DFB then '' (1490 nm DFB)''
      else if t = QSFP_DD_COPPER_UNEQUAL then '' (Copper cable, unequalized)''
      else if t = QSFP_DD_COPPER_PASS_EQUAL then '' (Copper cable, passive equalized)''
      else if t = QSFP_DD_COPPER_NF_EQUAL
        then '' (Copper cable, near and far end limiting active equalizers)''
      else if t = QSFP_DD_COPPER_F_EQUAL
        then '' (Copper cable, far end limiting active equalizers)''
      else if t = QSFP_DD_COPPER_N_EQUAL
        then '' (Copper cable, near end limiting active equalizers)''
      else if t = QSFP_DD_COPPER_LINEAR_EQUAL then '' (Copper cable, linear active equalizers)''
      else [])"

definition wavelength_int :: "u8 \<Rightarrow> u8 \<Rightarrow> int" where
  \<comment> \<open>\<^verbatim>\<open>(id[MSB] << 8) | id[LSB]\<close>, computed in \<^verbatim>\<open>int\<close>\<close>
  "wavelength_int msb lsb = push_bit 8 (uint msb) OR uint lsb"

definition qsfp_dd_show_mit_compliance :: "u8 list \<Rightarrow> line list option" where
  "qsfp_dd_show_mit_compliance idb = do {
     t \<leftarrow> rd idb QSFP_DD_MEDIA_INTF_TECH_OFFSET;
     let tech = Tech ''Transmitter technology'' t (mit_description t);
     if QSFP_DD_COPPER_UNEQUAL \<le> t then do {
       a5 \<leftarrow> rd idb QSFP_DD_COPPER_ATT_5GHZ;
       a7 \<leftarrow> rd idb QSFP_DD_COPPER_ATT_7GHZ;
       a12 \<leftarrow> rd idb QSFP_DD_COPPER_ATT_12P9GHZ;
       a25 \<leftarrow> rd idb QSFP_DD_COPPER_ATT_25P8GHZ;
       Some [tech,
             Db ''Attenuation at 5GHz'' a5,
             Db ''Attenuation at 7GHz'' a7,
             Db ''Attenuation at 12.9GHz'' a12,
             Db ''Attenuation at 25.8GHz'' a25]
     } else do {
       wm \<leftarrow> rd idb QSFP_DD_NOM_WAVELENGTH_MSB;
       wl \<leftarrow> rd idb QSFP_DD_NOM_WAVELENGTH_LSB;
       tm \<leftarrow> rd idb QSFP_DD_WAVELENGTH_TOL_MSB;
       tl \<leftarrow> rd idb QSFP_DD_WAVELENGTH_TOL_LSB;
       Some [tech,
             Nm ''Laser wavelength'' (f64 (f64 (of_int (wavelength_int wm wl)) * f64 (5 / 100))),
             Nm ''Laser wavelength tolerance''
                (f64 (f64 (of_int (wavelength_int tm tl)) * f64 (5 / 1000)))]
     }
   }"

subsection \<open>Diagnostics: constants and structures\<close>

definition QSFP_DD_PAG_SIZE :: nat where "QSFP_DD_PAG_SIZE = 0x80"
definition QSFP_DD_EEPROM_5PAG :: u32 where "QSFP_DD_EEPROM_5PAG = 0x80 * 6"
definition QSFP_DD_MAX_CHANNELS :: nat where "QSFP_DD_MAX_CHANNELS = 0x08"
definition QSFP_DD_MAX_DESC_SIZE :: nat where "QSFP_DD_MAX_DESC_SIZE = 0x2A"
definition QSFP_DD_READ_TX :: nat where "QSFP_DD_READ_TX = 0x00"
definition QSFP_DD_READ_RX :: nat where "QSFP_DD_READ_RX = 0x01"

definition HA :: nat where "HA = 0"
definition LA :: nat where "LA = 1"
definition HW :: nat where "HW = 2"
definition LW :: nat where "LW = 3"

definition QSFP_DD_MODULE_TYPE_OFFSET :: nat where "QSFP_DD_MODULE_TYPE_OFFSET = 0x55"
definition QSFP_DD_MT_MMF :: u8 where "QSFP_DD_MT_MMF = 0x01"
definition QSFP_DD_MT_SMF :: u8 where "QSFP_DD_MT_SMF = 0x02"

definition QSFP_DD_CURR_TEMP_OFFSET :: nat where "QSFP_DD_CURR_TEMP_OFFSET = 0x0E"
definition QSFP_DD_CURR_CURR_OFFSET :: nat where "QSFP_DD_CURR_CURR_OFFSET = 0x10"

definition PAG02H_OFFSET :: nat where "PAG02H_OFFSET = 0x02 * 0x80"
definition QSFP_DD_TEMP_THRS_START_OFFSET :: nat where "QSFP_DD_TEMP_THRS_START_OFFSET = PAG02H_OFFSET + 0x80"
definition QSFP_DD_VOLT_THRS_START_OFFSET :: nat where "QSFP_DD_VOLT_THRS_START_OFFSET = PAG02H_OFFSET + 0x88"
definition QSFP_DD_TXPW_THRS_START_OFFSET :: nat where "QSFP_DD_TXPW_THRS_START_OFFSET = PAG02H_OFFSET + 0xB0"
definition QSFP_DD_TXBI_THRS_START_OFFSET :: nat where "QSFP_DD_TXBI_THRS_START_OFFSET = PAG02H_OFFSET + 0xB8"
definition QSFP_DD_RXPW_THRS_START_OFFSET :: nat where "QSFP_DD_RXPW_THRS_START_OFFSET = PAG02H_OFFSET + 0xC0"

definition PAG11H_OFFSET :: nat where "PAG11H_OFFSET = 0x04 * 0x80"
definition QSFP_DD_TX_PWR_START_OFFSET :: nat where "QSFP_DD_TX_PWR_START_OFFSET = PAG11H_OFFSET + 0x9A"
definition QSFP_DD_TX_BIAS_START_OFFSET :: nat where "QSFP_DD_TX_BIAS_START_OFFSET = PAG11H_OFFSET + 0xAA"
definition QSFP_DD_RX_PWR_START_OFFSET :: nat where "QSFP_DD_RX_PWR_START_OFFSET = PAG11H_OFFSET + 0xBA"

definition QSFP_DD_TX_HA_OFFSET :: nat where "QSFP_DD_TX_HA_OFFSET = PAG11H_OFFSET + 0x8B"
definition QSFP_DD_TX_LA_OFFSET :: nat where "QSFP_DD_TX_LA_OFFSET = PAG11H_OFFSET + 0x8C"
definition QSFP_DD_TX_HW_OFFSET :: nat where "QSFP_DD_TX_HW_OFFSET = PAG11H_OFFSET + 0x8D"
definition QSFP_DD_TX_LW_OFFSET :: nat where "QSFP_DD_TX_LW_OFFSET = PAG11H_OFFSET + 0x8E"

definition QSFP_DD_RX_HA_OFFSET :: nat where "QSFP_DD_RX_HA_OFFSET = PAG11H_OFFSET + 0x95"
definition QSFP_DD_RX_LA_OFFSET :: nat where "QSFP_DD_RX_LA_OFFSET = PAG11H_OFFSET + 0x96"
definition QSFP_DD_RX_HW_OFFSET :: nat where "QSFP_DD_RX_HW_OFFSET = PAG11H_OFFSET + 0x97"
definition QSFP_DD_RX_LW_OFFSET :: nat where "QSFP_DD_RX_LW_OFFSET = PAG11H_OFFSET + 0x98"

definition ONOFF :: "bool \<Rightarrow> string" where
  \<comment> \<open>\<^verbatim>\<open>#define ONOFF(x) (((x) != 0) ? "On" : "Off")\<close>\<close>
  "ONOFF x = (if x then ''On'' else ''Off'')"

text \<open>
  The arrays of the structures are lists of the declared length. Every index used below is
  a loop counter below that length or one of \<open>HA\<close>, \<open>LA\<close>, \<open>HW\<close>, \<open>LW\<close>, so no array
  of a structure is read or written out of range.
\<close>

record qsfp_dd_channel_diags =
  bias_cur :: u16
  rx_power :: u16
  tx_power :: u16

record qsfp_dd_diags =
  sfp_voltage :: "u16 list"   \<comment> \<open>\<^verbatim>\<open>__u16 sfp_voltage[4]\<close>\<close>
  sfp_temp :: "int list"      \<comment> \<open>\<^verbatim>\<open>__s16 sfp_temp[4]\<close>, each element by its signed value\<close>
  bias_cur :: "u16 list"      \<comment> \<open>\<^verbatim>\<open>__u16 bias_cur[4]\<close>\<close>
  tx_power :: "u16 list"      \<comment> \<open>\<^verbatim>\<open>__u16 tx_power[4]\<close>\<close>
  rx_power :: "u16 list"      \<comment> \<open>\<^verbatim>\<open>__u16 rx_power[4]\<close>\<close>
  rxaw :: "bool list list"    \<comment> \<open>\<^verbatim>\<open>bool rxaw[QSFP_DD_MAX_CHANNELS][4]\<close>\<close>
  txaw :: "bool list list"    \<comment> \<open>\<^verbatim>\<open>bool txaw[QSFP_DD_MAX_CHANNELS][4]\<close>\<close>
  scd :: "qsfp_dd_channel_diags list"
                              \<comment> \<open>\<^verbatim>\<open>struct qsfp_dd_channel_diags scd[QSFP_DD_MAX_CHANNELS]\<close>\<close>

definition sd_zero :: qsfp_dd_diags where
  \<comment> \<open>\<^verbatim>\<open>struct qsfp_dd_diags sd = { { 0 } };\<close>\<close>
  "sd_zero = \<lparr>sfp_voltage = replicate 4 0, sfp_temp = replicate 4 0, bias_cur = replicate 4 0,
              tx_power = replicate 4 0, rx_power = replicate 4 0,
              rxaw = replicate QSFP_DD_MAX_CHANNELS (replicate 4 False),
              txaw = replicate QSFP_DD_MAX_CHANNELS (replicate 4 False),
              scd = replicate QSFP_DD_MAX_CHANNELS
                      \<lparr>qsfp_dd_channel_diags.bias_cur = 0, rx_power = 0, tx_power = 0\<rparr>\<rparr>"

subsection \<open>Reading the diagnostics\<close>

definition qsfp_dd_read_aw_for_channel ::
  "u8 list \<Rightarrow> nat \<Rightarrow> nat \<Rightarrow> qsfp_dd_diags \<Rightarrow> qsfp_dd_diags option" where
  \<comment> \<open>\<^verbatim>\<open>__u8 cmsk = (1 << ch)\<close>; an assignment to \<^verbatim>\<open>bool\<close> stores whether the value is not zero\<close>
  "qsfp_dd_read_aw_for_channel idb ch mode sd =
     (let cmsk = (push_bit ch 1 :: u8) in
      if mode = QSFP_DD_READ_TX then do {
        ha \<leftarrow> rd idb QSFP_DD_TX_HA_OFFSET;
        let sd = sd\<lparr>txaw := (txaw sd)[ch := (txaw sd ! ch)[HA := ha AND cmsk \<noteq> 0]]\<rparr>;
        la \<leftarrow> rd idb QSFP_DD_TX_LA_OFFSET;
        let sd = sd\<lparr>txaw := (txaw sd)[ch := (txaw sd ! ch)[LA := la AND cmsk \<noteq> 0]]\<rparr>;
        hw \<leftarrow> rd idb QSFP_DD_TX_HW_OFFSET;
        let sd = sd\<lparr>txaw := (txaw sd)[ch := (txaw sd ! ch)[HW := hw AND cmsk \<noteq> 0]]\<rparr>;
        lw \<leftarrow> rd idb QSFP_DD_TX_LW_OFFSET;
        let sd = sd\<lparr>txaw := (txaw sd)[ch := (txaw sd ! ch)[LW := lw AND cmsk \<noteq> 0]]\<rparr>;
        Some sd
      } else do {
        ha \<leftarrow> rd idb QSFP_DD_RX_HA_OFFSET;
        let sd = sd\<lparr>rxaw := (rxaw sd)[ch := (rxaw sd ! ch)[HA := ha AND cmsk \<noteq> 0]]\<rparr>;
        la \<leftarrow> rd idb QSFP_DD_RX_LA_OFFSET;
        let sd = sd\<lparr>rxaw := (rxaw sd)[ch := (rxaw sd ! ch)[LA := la AND cmsk \<noteq> 0]]\<rparr>;
        hw \<leftarrow> rd idb QSFP_DD_RX_HW_OFFSET;
        let sd = sd\<lparr>rxaw := (rxaw sd)[ch := (rxaw sd ! ch)[HW := hw AND cmsk \<noteq> 0]]\<rparr>;
        lw \<leftarrow> rd idb QSFP_DD_RX_LW_OFFSET;
        let sd = sd\<lparr>rxaw := (rxaw sd)[ch := (rxaw sd ! ch)[LW := lw AND cmsk \<noteq> 0]]\<rparr>;
        Some sd
      })"

fun for_loop :: "nat list \<Rightarrow> (nat \<Rightarrow> 's \<Rightarrow> 's option) \<Rightarrow> 's \<Rightarrow> 's option" where
  \<comment> \<open>\<^verbatim>\<open>for (i = 0; i < n; ++i) body\<close> is \<open>for_loop [0..<n] body\<close>\<close>
  "for_loop [] body s = Some s"
| "for_loop (i # is) body s = (case body i s of None \<Rightarrow> None | Some s' \<Rightarrow> for_loop is body s')"

definition u16_offset :: "nat \<Rightarrow> nat" where
  \<comment> \<open>the value stored in a \<^verbatim>\<open>__u16\<close> offset variable\<close>
  "u16_offset n = n mod 2 ^ 16"

definition qsfp_dd_parse_diagnostics :: "u8 list \<Rightarrow> qsfp_dd_diags \<Rightarrow> qsfp_dd_diags option" where
  "qsfp_dd_parse_diagnostics idb sd = do {
     sd \<leftarrow> for_loop [0..<QSFP_DD_MAX_CHANNELS] (\<lambda>i sd. do {
       let tx_bias_offset = u16_offset (QSFP_DD_TX_BIAS_START_OFFSET + push_bit 1 i);
       let rx_power_offset = u16_offset (QSFP_DD_RX_PWR_START_OFFSET + push_bit 1 i);
       let tx_power_offset = u16_offset (QSFP_DD_TX_PWR_START_OFFSET + push_bit 1 i);
       v \<leftarrow> OFFSET_TO_U16 idb tx_bias_offset;
       let sd = sd\<lparr>scd := (scd sd)[i := (scd sd ! i)\<lparr>qsfp_dd_channel_diags.bias_cur := v\<rparr>]\<rparr>;
       v \<leftarrow> OFFSET_TO_U16 idb rx_power_offset;
       let sd = sd\<lparr>scd := (scd sd)[i := (scd sd ! i)\<lparr>qsfp_dd_channel_diags.rx_power := v\<rparr>]\<rparr>;
       v \<leftarrow> OFFSET_TO_U16 idb tx_power_offset;
       let sd = sd\<lparr>scd := (scd sd)[i := (scd sd ! i)\<lparr>qsfp_dd_channel_diags.tx_power := v\<rparr>]\<rparr>;
       sd \<leftarrow> qsfp_dd_read_aw_for_channel idb i QSFP_DD_READ_TX sd;
       qsfp_dd_read_aw_for_channel idb i QSFP_DD_READ_RX sd
     }) sd;
     for_loop [0..<4] (\<lambda>i sd. do {
       let tx_power_offset = u16_offset (QSFP_DD_TXPW_THRS_START_OFFSET + push_bit 1 i);
       v \<leftarrow> OFFSET_TO_U16 idb tx_power_offset;
       let sd = sd\<lparr>qsfp_dd_diags.tx_power := (qsfp_dd_diags.tx_power sd)[i := v]\<rparr>;
       let rx_power_offset = u16_offset (QSFP_DD_RXPW_THRS_START_OFFSET + push_bit 1 i);
       v \<leftarrow> OFFSET_TO_U16 idb rx_power_offset;
       let sd = sd\<lparr>qsfp_dd_diags.rx_power := (qsfp_dd_diags.rx_power sd)[i := v]\<rparr>;
       let tx_bias_offset = u16_offset (QSFP_DD_TXBI_THRS_START_OFFSET + push_bit 1 i);
       v \<leftarrow> OFFSET_TO_U16 idb tx_bias_offset;
       let sd = sd\<lparr>qsfp_dd_diags.bias_cur := (qsfp_dd_diags.bias_cur sd)[i := v]\<rparr>;
       let temp_offset = u16_offset (QSFP_DD_TEMP_THRS_START_OFFSET + push_bit 1 i);
       t \<leftarrow> OFFSET_TO_TEMP idb temp_offset;
       let sd = sd\<lparr>sfp_temp := (sfp_temp sd)[i := t]\<rparr>;
       let volt_offset = u16_offset (QSFP_DD_VOLT_THRS_START_OFFSET + push_bit 1 i);
       v \<leftarrow> OFFSET_TO_U16 idb volt_offset;
       let sd = sd\<lparr>sfp_voltage := (sfp_voltage sd)[i := v]\<rparr>;
       Some sd
     }) sd
   }"

subsection \<open>Printing the diagnostics\<close>

definition qsfp_dd_show_thresholds :: "qsfp_dd_diags \<Rightarrow> line list" where
  "qsfp_dd_show_thresholds sd =
     [PRINT_BIAS ''Laser bias current high alarm threshold'' (qsfp_dd_diags.bias_cur sd ! HA),
      PRINT_BIAS ''Laser bias current low alarm threshold'' (qsfp_dd_diags.bias_cur sd ! LA),
      PRINT_BIAS ''Laser bias current high warning threshold'' (qsfp_dd_diags.bias_cur sd ! HW),
      PRINT_BIAS ''Laser bias current low warning threshold'' (qsfp_dd_diags.bias_cur sd ! LW),
      PRINT_xX_PWR ''Laser output power high alarm threshold'' (qsfp_dd_diags.tx_power sd ! HA),
      PRINT_xX_PWR ''Laser output power low alarm threshold'' (qsfp_dd_diags.tx_power sd ! LA),
      PRINT_xX_PWR ''Laser output power high warning threshold'' (qsfp_dd_diags.tx_power sd ! HW),
      PRINT_xX_PWR ''Laser output power low warning threshold'' (qsfp_dd_diags.tx_power sd ! LW),
      PRINT_TEMP ''Module temperature high alarm threshold'' (sfp_temp sd ! HA),
      PRINT_TEMP ''Module temperature low alarm threshold'' (sfp_temp sd ! LA),
      PRINT_TEMP ''Module temperature high warning threshold'' (sfp_temp sd ! HW),
      PRINT_TEMP ''Module temperature low warning threshold'' (sfp_temp sd ! LW),
      PRINT_VCC ''Module voltage high alarm threshold'' (sfp_voltage sd ! HA),
      PRINT_VCC ''Module voltage low alarm threshold'' (sfp_voltage sd ! LA),
      PRINT_VCC ''Module voltage high warning threshold'' (sfp_voltage sd ! HW),
      PRINT_VCC ''Module voltage low warning threshold'' (sfp_voltage sd ! LW),
      PRINT_xX_PWR ''Laser rx power high alarm threshold'' (qsfp_dd_diags.rx_power sd ! HA),
      PRINT_xX_PWR ''Laser rx power low alarm threshold'' (qsfp_dd_diags.rx_power sd ! LA),
      PRINT_xX_PWR ''Laser rx power high warning threshold'' (qsfp_dd_diags.rx_power sd ! HW),
      PRINT_xX_PWR ''Laser rx power low warning threshold'' (qsfp_dd_diags.rx_power sd ! LW)]"

fun dec :: "nat \<Rightarrow> string" where
  \<comment> \<open>the conversion \<^verbatim>\<open>%d\<close> of a number that is not negative\<close>
  "dec n = (if n < 10 then [''0123456789'' ! n] else dec (n div 10) @ [''0123456789'' ! (n mod 10)])"

definition snprintf :: "nat \<Rightarrow> string \<Rightarrow> string" where
  \<comment> \<open>\<^verbatim>\<open>snprintf(buf, size, ...)\<close> keeps at most \<open>size - 1\<close> characters of the formatted text\<close>
  "snprintf n text = take (n - 1) text"

definition cs :: "string \<Rightarrow> nat \<Rightarrow> string" where
  \<comment> \<open>\<^verbatim>\<open>const char *cs = "%s (Channel %d)"\<close>\<close>
  "cs s d = s @ '' (Channel '' @ dec d @ '')''"

definition aw_strings :: "(string \<Rightarrow> nat \<Rightarrow> string) list" where
  "aw_strings =
     [\<lambda>s d. s @ '' power high alarm   (Channel '' @ dec d @ '')'',
      \<lambda>s d. s @ '' power low alarm    (Channel '' @ dec d @ '')'',
      \<lambda>s d. s @ '' power high warning (Channel '' @ dec d @ '')'',
      \<lambda>s d. s @ '' power low warning  (Channel '' @ dec d @ '')'']"

definition qsfp_dd_show_sig_optical_pwr :: "u8 list \<Rightarrow> u32 \<Rightarrow> line list option" where
  \<comment> \<open>the loops that only print are maps over the loop counter; the last of them prints
      the Tx lines from \<^verbatim>\<open>sd.rxaw\<close>, as the C does\<close>
  "qsfp_dd_show_sig_optical_pwr idb eeprom_len = do {
     module_type \<leftarrow> rd idb QSFP_DD_MODULE_TYPE_OFFSET;
     let sd = sd_zero;
     t \<leftarrow> OFFSET_TO_TEMP idb QSFP_DD_CURR_TEMP_OFFSET;
     v \<leftarrow> OFFSET_TO_U16 idb QSFP_DD_CURR_CURR_OFFSET;
     let out = [PRINT_TEMP ''Module temperature'' t, PRINT_VCC ''Module voltage'' v];
     if module_type \<noteq> QSFP_DD_MT_MMF \<and> module_type \<noteq> QSFP_DD_MT_SMF \<and>
        eeprom_len \<noteq> QSFP_DD_EEPROM_5PAG
     then Some out
     else do {
       sd \<leftarrow> qsfp_dd_parse_diagnostics idb sd;
       Some (out
         @ map (\<lambda>i. PRINT_BIAS (snprintf QSFP_DD_MAX_DESC_SIZE (cs ''Tx bias current monitor'' (i + 1)))
                       (qsfp_dd_channel_diags.bias_cur (scd sd ! i)))
             [0..<QSFP_DD_MAX_CHANNELS]
         @ map (\<lambda>i. PRINT_xX_PWR (snprintf QSFP_DD_MAX_DESC_SIZE (cs ''Tx output optical power'' (i + 1)))
                       (qsfp_dd_channel_diags.tx_power (scd sd ! i)))
             [0..<QSFP_DD_MAX_CHANNELS]
         @ map (\<lambda>i. PRINT_xX_PWR (snprintf QSFP_DD_MAX_DESC_SIZE (cs ''Rx input optical power'' (i + 1)))
                       (qsfp_dd_channel_diags.rx_power (scd sd ! i)))
             [0..<QSFP_DD_MAX_CHANNELS]
         @ concat (map (\<lambda>i. map (\<lambda>j.
               Line (snprintf QSFP_DD_MAX_DESC_SIZE ((aw_strings ! j) ''Rx'' (i + 1)))
                    (ONOFF (rxaw sd ! i ! j))) [0..<4]) [0..<QSFP_DD_MAX_CHANNELS])
         @ concat (map (\<lambda>i. map (\<lambda>j.
               Line (snprintf QSFP_DD_MAX_DESC_SIZE ((aw_strings ! j) ''Tx'' (i + 1)))
                    (ONOFF (rxaw sd ! i ! j))) [0..<4]) [0..<QSFP_DD_MAX_CHANNELS])
         @ qsfp_dd_show_thresholds sd)
     }
   }"

declare dec.simps [simp del]

section \<open>Properties\<close>

subsection \<open>Floating-point rounding\<close>

lemmas len_consts =
  QSFP_DD_CBL_ASM_LEN_OFFSET_def QSFP_DD_6300M_MAX_LEN_def QSFP_DD_MULTIPLIER_00_def
  QSFP_DD_MULTIPLIER_01_def QSFP_DD_MULTIPLIER_10_def QSFP_DD_MULTIPLIER_11_def
  QSFP_DD_LEN_MUL_MASK_def QSFP_DD_LEN_VAL_MASK_def PAG01H_OFFSET_def
  QSFP_DD_SMF_LEN_OFFSET_def

text \<open>An integer below \<open>2\<^sup>p\<close> in absolute value is a floating-point number: rounding keeps it.\<close>

lemma round_nearest_even_of_int: "round_nearest_even (of_int n) = n"
  by (simp add: round_nearest_even_def)

lemma float_round_of_int:
  assumes "\<bar>n\<bar> < 2 ^ p"
  shows "float_round p (of_int n) = of_int n"
proof (cases "n = 0")
  case True
  then show ?thesis by (simp add: float_round_def)
next
  case False
  define a where "a = \<bar>n\<bar>"
  have a: "0 < a" "a < 2 ^ p" using False assms by (simp_all add: a_def)
  have q: "quotient_of \<bar>rat_of_int n\<bar> = (a, 1)"
    unfolding a_def by (simp flip: of_int_abs add: quotient_of_int Rat.of_int_def)
  have b1: "1 \<le> bitlen a" using a(1) by (simp add: bitlen_ge_iff_power)
  have b2: "bitlen a \<le> int p" using a(2) by (simp add: bitlen_le_iff_power)
  have "(2::int) ^ nat (bitlen a - 1) \<le> a" using bitlen_bounds [OF a(1)] by simp
  then have "rat_of_int (2 ^ nat (bitlen a - 1)) \<le> rat_of_int a" by (simp only: of_int_le_iff)
  then have le: "pow2 (bitlen a - 1) \<le> \<bar>rat_of_int n\<bar>"
    using b1 by (simp add: pow2_def a_def)
  have one: "bitlen 1 = 1" by code_simp
  define j where "j = nat (int p - bitlen a)"
  have e: "bitlen a - 1 - (int p - 1) = - int j" using b2 by (simp add: j_def)
  have pj: "pow2 (- int j) = 1 / 2 ^ j" by (cases "j = 0") (simp_all add: pow2_def)
  have "rat_of_int n / pow2 (- int j) = rat_of_int (n * 2 ^ j)" by (simp add: pj)
  then have r: "round_nearest_even (rat_of_int n / pow2 (- int j)) = n * 2 ^ j"
    by (simp only: round_nearest_even_of_int)
  have "float_round p (rat_of_int n) = rat_of_int (n * 2 ^ j) * pow2 (- int j)"
    using False le by (simp add: float_round_def q one e r Let_def del: of_int_mult)
  then show ?thesis by (simp add: pj)
qed

lemma f32_of_nat: "n < 2 ^ 24 \<Longrightarrow> f32 (of_nat n) = of_nat n"
  using float_round_of_int [of "int n" 24] by (simp add: f32_def)

lemma f32_numeral: "f32 1 = 1" "f32 10 = 10" "f32 100 = 100"
  using f32_of_nat [of 1] f32_of_nat [of 10] f32_of_nat [of 100] by simp_all

lemma f32_magnitude:
  assumes "m < 64"
  shows "f32 (of_nat m) = of_nat m" "f32 (of_nat m * 10) = of_nat m * 10"
    "f32 (of_nat m * 100) = of_nat m * 100"
  using assms f32_of_nat [of m] f32_of_nat [of "m * 10"] f32_of_nat [of "m * 100"]
  by simp_all

text \<open>
  Rounding moves a number by at most the fraction \<open>2\<^sup>-\<^sup>p\<close> of its size. So the product of a
  number \<open>M\<close> and a constant that is itself rounded differs from the exact product by at
  most the fraction \<open>2 * 2\<^sup>-\<^sup>p + 2\<^sup>-\<^sup>2\<^sup>p\<close> of it: less than one part in a million in
  \<^verbatim>\<open>float\<close>, far below the two decimals that are printed.
\<close>

lemma pow2_powi: "pow2 k = 2 powi k"
  by (simp add: pow2_def power_int_def inverse_eq_divide power_one_over)

lemma pow2_pos: "0 < pow2 k"
  by (simp add: pow2_def)

lemma pow2_diff: "pow2 (i - j) = pow2 i / pow2 j"
  by (simp add: pow2_powi power_int_diff)

lemma pow2_nat: "pow2 (int n) = 2 ^ n"
  by (simp add: pow2_def)

lemma round_nearest_even_error: "\<bar>of_int (round_nearest_even q) - q\<bar> \<le> 1 / 2"
proof -
  have "of_int \<lfloor>q\<rfloor> \<le> q" "q < of_int \<lfloor>q\<rfloor> + 1" by linarith+
  then show ?thesis by (auto simp: round_nearest_even_def Let_def)
qed

lemma float_round_error:
  assumes "x \<noteq> 0"
  shows "\<bar>float_round p x - x\<bar> \<le> \<bar>x\<bar> / 2 ^ p"
proof -
  obtain a b where q: "quotient_of \<bar>x\<bar> = (a, b)" by (cases "quotient_of \<bar>x\<bar>")
  have b: "0 < b" using quotient_of_denom_pos [OF q] .
  have xab: "\<bar>x\<bar> = of_int a / of_int b" using quotient_of_div [OF q] .
  have a: "0 < a"
  proof (rule ccontr)
    assume "\<not> 0 < a"
    then have "of_int a / rat_of_int b \<le> 0" using b by (simp add: divide_le_0_iff)
    with xab assms show False by simp
  qed
  define k where "k = bitlen a - bitlen b"
  define E where "E = (if pow2 k \<le> \<bar>x\<bar> then k else k - 1)"
  have E: "pow2 E \<le> \<bar>x\<bar>"
  proof (cases "pow2 k \<le> \<bar>x\<bar>")
    case True
    then show ?thesis by (simp add: E_def)
  next
    case False
    have la: "1 \<le> bitlen a" and lb: "1 \<le> bitlen b"
      using a b by (simp_all add: bitlen_ge_iff_power)
    have "(2::int) ^ nat (bitlen a - 1) \<le> a" using bitlen_bounds [OF a] by simp
    then have "rat_of_int (2 ^ nat (bitlen a - 1)) \<le> rat_of_int a" by (simp only: of_int_le_iff)
    then have 1: "pow2 (bitlen a - 1) \<le> of_int a" using la by (simp add: pow2_def)
    have "b < 2 ^ nat (bitlen b)" using bitlen_bounds [OF b] by simp
    then have "rat_of_int b < rat_of_int (2 ^ nat (bitlen b))" by (simp only: of_int_less_iff)
    then have 2: "of_int b \<le> pow2 (bitlen b)" using lb by (simp add: pow2_def)
    have "pow2 (k - 1) = pow2 (bitlen a - 1) / pow2 (bitlen b)"
      by (simp add: k_def pow2_diff [symmetric] algebra_simps)
    also have "\<dots> \<le> of_int a / of_int b"
      using 1 2 a b pow2_pos [of "bitlen a - 1"] pow2_pos [of "bitlen b"]
      by (intro frac_le) simp_all
    finally show ?thesis using False xab by (simp add: E_def)
  qed
  define e where "e = E - (int p - 1)"
  have fr: "float_round p x = of_int (round_nearest_even (x / pow2 e)) * pow2 e"
    using assms by (simp add: float_round_def q k_def E_def e_def Let_def)
  have "float_round p x - x = (of_int (round_nearest_even (x / pow2 e)) - x / pow2 e) * pow2 e"
    using pow2_pos [of e] by (simp add: fr algebra_simps)
  then have "\<bar>float_round p x - x\<bar> = \<bar>of_int (round_nearest_even (x / pow2 e)) - x / pow2 e\<bar> * pow2 e"
    using pow2_pos [of e] by (simp add: abs_mult)
  also have "\<dots> \<le> 1 / 2 * pow2 e"
    using round_nearest_even_error [of "x / pow2 e"] pow2_pos [of e]
    by (intro mult_right_mono) simp_all
  also have "\<dots> = pow2 E / 2 ^ p"
  proof -
    have "e = E - int p + 1" by (simp add: e_def)
    then have "pow2 e = pow2 (E - int p) * 2"
      by (simp add: pow2_powi power_int_add)
    also have "pow2 (E - int p) = pow2 E / 2 ^ p" by (simp add: pow2_diff pow2_nat)
    finally show ?thesis by simp
  qed
  also have "\<dots> \<le> \<bar>x\<bar> / 2 ^ p" using E by (simp add: divide_right_mono)
  finally show ?thesis .
qed

lemma float_round_0: "float_round p 0 = 0"
  by (simp add: float_round_def)

lemma float_scale_error:
  assumes "0 \<le> M" and "0 < s"
  shows "\<bar>float_round p (M * float_round p s) - M * s\<bar> \<le> M * s * (2 / 2 ^ p + 1 / (2 ^ p * 2 ^ p))"
proof -
  define t where "t = float_round p s"
  define u :: rat where "u = 1 / 2 ^ p"
  have u: "0 < u" by (simp add: u_def)
  have ts: "\<bar>t - s\<bar> \<le> s * u"
    using float_round_error [of s p] assms(2) by (simp add: t_def u_def)
  then have t: "\<bar>t\<bar> \<le> s + s * u" using assms(2) by linarith
  have "\<bar>float_round p y - y\<bar> \<le> \<bar>y\<bar> * u" for y
  proof (cases "y = 0")
    case True
    then show ?thesis by (simp add: float_round_0)
  next
    case False
    then show ?thesis using float_round_error [of y p] by (simp add: u_def)
  qed
  then have "\<bar>float_round p (M * t) - M * t\<bar> \<le> \<bar>M * t\<bar> * u" .
  also have "\<bar>M * t\<bar> * u = M * \<bar>t\<bar> * u" using assms(1) by (simp add: abs_mult)
  also have "\<dots> \<le> M * (s + s * u) * u"
    using t assms(1) u by (intro mult_right_mono mult_left_mono) simp_all
  finally have 1: "\<bar>float_round p (M * t) - M * t\<bar> \<le> M * (s + s * u) * u" .
  have "\<bar>M * t - M * s\<bar> = M * \<bar>t - s\<bar>"
    using assms(1) by (simp add: abs_mult flip: right_diff_distrib)
  also have "\<dots> \<le> M * (s * u)" using ts assms(1) by (intro mult_left_mono) simp_all
  finally have 2: "\<bar>M * t - M * s\<bar> \<le> M * (s * u)" .
  have "\<bar>float_round p (M * t) - M * s\<bar> \<le> M * (s + s * u) * u + M * (s * u)"
    using 1 2 by linarith
  also have "\<dots> = M * s * (2 / 2 ^ p + 1 / (2 ^ p * 2 ^ p))"
    by (simp add: u_def algebra_simps)
  finally show ?thesis by (simp add: t_def)
qed

lemma f32_tenth_error: "\<bar>f32 (of_nat m * f32 (1 / 10)) - of_nat m / 10\<bar> \<le> of_nat m / 10 ^ 7"
proof -
  have "\<bar>f32 (of_nat m * f32 (1 / 10)) - of_nat m * (1 / 10)\<bar> \<le>
        of_nat m * (1 / 10) * (2 / 2 ^ 24 + 1 / (2 ^ 24 * 2 ^ 24))"
    unfolding f32_def by (rule float_scale_error) simp_all
  also have "\<dots> \<le> of_nat m * (1 / 10 ^ 7)"
    by (simp only: mult.assoc) (intro mult_left_mono, simp_all)
  finally show ?thesis by simp
qed

lemma f64_scale_error:
  assumes "0 \<le> n"
  shows "\<bar>f64 (of_int n * f64 (5 / 100)) - of_int n * 5 / 100\<bar> \<le> of_int n / 10 ^ 16"
    and "\<bar>f64 (of_int n * f64 (5 / 1000)) - of_int n * 5 / 1000\<bar> \<le> of_int n / 10 ^ 17"
proof -
  have "\<bar>f64 (of_int n * f64 (5 / 100)) - of_int n * (5 / 100)\<bar> \<le>
        of_int n * (5 / 100) * (2 / 2 ^ 53 + 1 / (2 ^ 53 * 2 ^ 53))"
    unfolding f64_def using assms by (intro float_scale_error) simp_all
  also have "\<dots> \<le> of_int n * (1 / 10 ^ 16)"
    using assms by (simp only: mult.assoc) (intro mult_left_mono, simp_all)
  finally show "\<bar>f64 (of_int n * f64 (5 / 100)) - of_int n * 5 / 100\<bar> \<le> of_int n / 10 ^ 16"
    by simp
  have "\<bar>f64 (of_int n * f64 (5 / 1000)) - of_int n * (5 / 1000)\<bar> \<le>
        of_int n * (5 / 1000) * (2 / 2 ^ 53 + 1 / (2 ^ 53 * 2 ^ 53))"
    unfolding f64_def using assms by (intro float_scale_error) simp_all
  also have "\<dots> \<le> of_int n * (1 / 10 ^ 17)"
    using assms by (simp only: mult.assoc) (intro mult_left_mono, simp_all)
  finally show "\<bar>f64 (of_int n * f64 (5 / 1000)) - of_int n * 5 / 1000\<bar> \<le> of_int n / 10 ^ 17"
    by simp
qed

lemma len_val_bound: "unat (b AND QSFP_DD_LEN_VAL_MASK) < 64"
proof -
  have "b AND 63 \<le> 63" by (rule word_and_le1)
  then have "unat (b AND 63) \<le> 63" by (simp only: word_le_nat_alt) simp
  then show ?thesis by (simp add: QSFP_DD_LEN_VAL_MASK_def)
qed

text \<open>
  A byte is \<open>64 c + m\<close> for one multiplier code \<open>c < 4\<close> (bits 7-6) and one magnitude
  \<open>m < 64\<close> (bits 5-0); the masks of qsfp-dd.h select the two parts, and the byte is the
  reserved value \<^verbatim>\<open>0xFF\<close> exactly for \<open>c = 3\<close> and \<open>m = 63\<close>.
\<close>

lemma len_byte_fields:
  fixes m c :: nat
  assumes "m < 64" and "c < 4"
  defines "b \<equiv> (of_nat (64 * c + m) :: u8)"
  shows "unat (b AND QSFP_DD_LEN_VAL_MASK) = m"
    and "b AND QSFP_DD_LEN_MUL_MASK =
           [QSFP_DD_MULTIPLIER_00, QSFP_DD_MULTIPLIER_01, QSFP_DD_MULTIPLIER_10,
            QSFP_DD_MULTIPLIER_11] ! c"
    and "(b = QSFP_DD_6300M_MAX_LEN) = (m = 63 \<and> c = 3)"
proof -
  have u: "unat b = 64 * c + m"
    unfolding b_def using assms(1,2) by (simp only: unat_of_nat) simp
  have "(0x3F :: u8) = mask 6" by (simp add: mask_eq_exp_minus_1)
  then have "b AND 0x3F = take_bit 6 b" by (simp add: take_bit_eq_mask)
  then have "unat (b AND 0x3F) = take_bit 6 (unat b)" by (simp add: unsigned_take_bit_eq)
  also have "\<dots> = m" using assms(1) by (simp add: u take_bit_eq_mod)
  finally show "unat (b AND QSFP_DD_LEN_VAL_MASK) = m" by (simp add: QSFP_DD_LEN_VAL_MASK_def)
  have c0: "(0xC0 :: u8) = push_bit 6 (mask 2)" by (simp add: mask_eq_exp_minus_1 push_bit_eq_mult)
  have "b AND push_bit 6 (mask 2) = push_bit 6 (drop_bit 6 b)"
    by (rule bit_word_eqI) (auto simp: bit_simps)
  then have "b AND 0xC0 = push_bit 6 (drop_bit 6 b)" by (simp only: c0)
  moreover have "unat (drop_bit 6 b) = drop_bit 6 (unat b)" by (rule unat_drop_bit_eq)
  then have "unat (drop_bit 6 b) = c"
    using assms(1) by (simp only: u drop_bit_eq_div) simp
  then have "drop_bit 6 b = of_nat c"
    using assms(2) by (simp add: word_unat_eq_iff unat_of_nat)
  ultimately have sel: "b AND 0xC0 = of_nat (64 * c)" by (simp add: push_bit_eq_mult)
  from assms(2) consider "c = 0" | "c = 1" | "c = 2" | "c = 3" by linarith
  then show "b AND QSFP_DD_LEN_MUL_MASK =
           [QSFP_DD_MULTIPLIER_00, QSFP_DD_MULTIPLIER_01, QSFP_DD_MULTIPLIER_10,
            QSFP_DD_MULTIPLIER_11] ! c"
    by cases (simp_all add: sel len_consts)
  have "(b = 0xFF) = (unat b = unat (0xFF :: u8))" by (simp only: word_unat_eq_iff)
  also have "\<dots> = (64 * c + m = 255)" by (simp add: u)
  also have "\<dots> = (m = 63 \<and> c = 3)" using assms(1,2) by arith
  finally show "(b = QSFP_DD_6300M_MAX_LEN) = (m = 63 \<and> c = 3)"
    by (simp add: QSFP_DD_6300M_MAX_LEN_def)
qed

lemma len_byte_split:
  fixes b :: u8
  shows "b = of_nat (64 * (unat b div 64) + unat b mod 64)"
    and "unat b div 64 < 4" and "unat b mod 64 < 64"
proof -
  show "b = of_nat (64 * (unat b div 64) + unat b mod 64)" by (simp only: mult_div_mod_eq) simp
  have "unat b < 256" using unsigned_less [of b, where ?'a = nat] by simp
  then show "unat b div 64 < 4" by simp
  show "unat b mod 64 < 64" by simp
qed

text \<open>
  What the two length decoders print for a byte \<open>b\<close>, by the value of its two multiplier
  bits. The magnitude \<open>m\<close> is below 64, so its conversion to \<^verbatim>\<open>float\<close> and its products with
  1, 10 and 100 are exact; only the product with \<^verbatim>\<open>0.1f\<close> is rounded.
\<close>

lemma cbl_asm_len_value:
  assumes "rd idb QSFP_DD_CBL_ASM_LEN_OFFSET = Some b"
    and "b \<noteq> QSFP_DD_6300M_MAX_LEN"
    and "unat (b AND QSFP_DD_LEN_VAL_MASK) = m"
  shows "b AND QSFP_DD_LEN_MUL_MASK = QSFP_DD_MULTIPLIER_00 \<Longrightarrow>
           qsfp_dd_show_cbl_asm_len idb = Some [Km ''Cable assembly length'' (f32 (of_nat m * f32 (1 / 10)))]"
    and "b AND QSFP_DD_LEN_MUL_MASK = QSFP_DD_MULTIPLIER_01 \<Longrightarrow>
           qsfp_dd_show_cbl_asm_len idb = Some [Km ''Cable assembly length'' (of_nat m)]"
    and "b AND QSFP_DD_LEN_MUL_MASK = QSFP_DD_MULTIPLIER_10 \<Longrightarrow>
           qsfp_dd_show_cbl_asm_len idb = Some [Km ''Cable assembly length'' (of_nat m * 10)]"
    and "b AND QSFP_DD_LEN_MUL_MASK = QSFP_DD_MULTIPLIER_11 \<Longrightarrow>
           qsfp_dd_show_cbl_asm_len idb = Some [Km ''Cable assembly length'' (of_nat m * 100)]"
proof -
  have m: "m < 64" using assms(3) len_val_bound [of b] by simp
  note defs = qsfp_dd_show_cbl_asm_len_def f32_magnitude f32_numeral QSFP_DD_MULTIPLIER_00_def
    QSFP_DD_MULTIPLIER_01_def QSFP_DD_MULTIPLIER_10_def QSFP_DD_MULTIPLIER_11_def
  show "b AND QSFP_DD_LEN_MUL_MASK = QSFP_DD_MULTIPLIER_00 \<Longrightarrow>
           qsfp_dd_show_cbl_asm_len idb = Some [Km ''Cable assembly length'' (f32 (of_nat m * f32 (1 / 10)))]"
    using assms m by (simp del: of_nat_unat add: defs)
  show "b AND QSFP_DD_LEN_MUL_MASK = QSFP_DD_MULTIPLIER_01 \<Longrightarrow>
           qsfp_dd_show_cbl_asm_len idb = Some [Km ''Cable assembly length'' (of_nat m)]"
    using assms m by (simp del: of_nat_unat add: defs)
  show "b AND QSFP_DD_LEN_MUL_MASK = QSFP_DD_MULTIPLIER_10 \<Longrightarrow>
           qsfp_dd_show_cbl_asm_len idb = Some [Km ''Cable assembly length'' (of_nat m * 10)]"
    using assms m by (simp del: of_nat_unat add: defs)
  show "b AND QSFP_DD_LEN_MUL_MASK = QSFP_DD_MULTIPLIER_11 \<Longrightarrow>
           qsfp_dd_show_cbl_asm_len idb = Some [Km ''Cable assembly length'' (of_nat m * 100)]"
    using assms m by (simp del: of_nat_unat add: defs)
qed

lemma smf_cbl_len_value:
  assumes "rd idb QSFP_DD_SMF_LEN_OFFSET = Some b"
    and "unat (b AND QSFP_DD_LEN_VAL_MASK) = m"
  shows "b AND QSFP_DD_LEN_MUL_MASK = QSFP_DD_MULTIPLIER_00 \<Longrightarrow>
           qsfp_dd_print_smf_cbl_len idb = Some [Km ''Length (SMF)'' (f32 (of_nat m * f32 (1 / 10)))]"
    and "b AND QSFP_DD_LEN_MUL_MASK \<noteq> QSFP_DD_MULTIPLIER_00 \<Longrightarrow>
           qsfp_dd_print_smf_cbl_len idb = Some [Km ''Length (SMF)'' (of_nat m)]"
proof -
  have m: "m < 64" using assms(2) len_val_bound [of b] by simp
  show "b AND QSFP_DD_LEN_MUL_MASK = QSFP_DD_MULTIPLIER_00 \<Longrightarrow>
           qsfp_dd_print_smf_cbl_len idb = Some [Km ''Length (SMF)'' (f32 (of_nat m * f32 (1 / 10)))]"
    using assms m by (simp del: of_nat_unat add: qsfp_dd_print_smf_cbl_len_def f32_magnitude)
  show "b AND QSFP_DD_LEN_MUL_MASK \<noteq> QSFP_DD_MULTIPLIER_00 \<Longrightarrow>
           qsfp_dd_print_smf_cbl_len idb = Some [Km ''Length (SMF)'' (of_nat m)]"
    using assms m
    by (simp del: of_nat_unat add: qsfp_dd_print_smf_cbl_len_def f32_magnitude f32_numeral)
qed

subsection \<open>Cable assembly length\<close>

text \<open>
  C5. A cable-assembly byte equal to the reserved value \<^verbatim>\<open>QSFP_DD_6300M_MAX_LEN\<close> (\<^verbatim>\<open>0xFF\<close>)
  gives the line "> 6.3km" and nothing else, whatever the other bytes of the buffer are:
  no multiplier and no magnitude is taken from the byte.
\<close>

theorem cbl_asm_len_sentinel:
  assumes "QSFP_DD_CBL_ASM_LEN_OFFSET < length idb"
    and "idb ! QSFP_DD_CBL_ASM_LEN_OFFSET = QSFP_DD_6300M_MAX_LEN"
  shows "qsfp_dd_show_cbl_asm_len idb = Some [Line ''Cable assembly length'' ''> 6.3km'']"
  using assms by (simp add: qsfp_dd_show_cbl_asm_len_def rd_def)

theorem cbl_asm_len_sentinel_witness:
  "QSFP_DD_CBL_ASM_LEN_OFFSET < length (replicate 202 0x5A @ [0xFF, 0x23 :: u8]) \<and>
   (replicate 202 0x5A @ [0xFF, 0x23 :: u8]) ! QSFP_DD_CBL_ASM_LEN_OFFSET = QSFP_DD_6300M_MAX_LEN \<and>
   qsfp_dd_show_cbl_asm_len (replicate 202 0x5A @ [0xFF, 0x23]) =
     Some [Line ''Cable assembly length'' ''> 6.3km'']"
  using cbl_asm_len_sentinel [of "replicate 202 0x5A @ [0xFF, 0x23]"]
  by (simp add: len_consts nth_append)

text \<open>
  C6. The claim lets the magnitude range over \<^verbatim>\<open>0x01\<close>--\<^verbatim>\<open>0x3F\<close> with each of the four multiplier
  codes. Magnitude \<^verbatim>\<open>0x3F\<close> with code 11 is the byte \<^verbatim>\<open>0xFF\<close>, the reserved value, for
  which the function prints "> 6.3km" and not 6300.
\<close>

theorem cbl_asm_len_sentinel_counterexample:
  "(of_nat (64 * 3 + 0x3F) :: u8) = 0xFF \<and>
   (0xFF :: u8) AND QSFP_DD_LEN_VAL_MASK = 0x3F \<and>
   (0xFF :: u8) AND QSFP_DD_LEN_MUL_MASK = QSFP_DD_MULTIPLIER_11 \<and>
   qsfp_dd_show_cbl_asm_len (replicate 202 0 @ [0xFF]) =
     Some [Line ''Cable assembly length'' ''> 6.3km''] \<and>
   qsfp_dd_show_cbl_asm_len (replicate 202 0 @ [0xFF]) \<noteq>
     Some [Km ''Cable assembly length'' (0x3F * 100)]"
  by (simp add: qsfp_dd_show_cbl_asm_len_def rd_def len_consts nth_append)

text \<open>
  C6, amended. For every magnitude \<open>m\<close> (bits 5-0, \<^verbatim>\<open>0x00\<close>--\<^verbatim>\<open>0x3F\<close>) and every multiplier
  code \<open>c\<close> (bits 7-6) of the cable-assembly byte, but for \<open>m\<close> = \<^verbatim>\<open>0x3F\<close> with the code 11,
  the length printed is \<open>m\<close> times the scale factor of the code: exactly \<open>m\<close>, \<open>10 m\<close> or
  \<open>100 m\<close> for the codes 01, 10, 11, and for the code 00 the single-precision product of
  \<open>m\<close> and \<^verbatim>\<open>0.1f\<close>, rounded once, which differs from \<open>m / 10\<close> by at most \<open>m / 10\<^sup>7\<close>.
\<close>

theorem cbl_asm_len_multiplier:
  assumes "m < 64" and "c < 4" and "\<not> (m = 63 \<and> c = 3)"
    and "rd idb QSFP_DD_CBL_ASM_LEN_OFFSET = Some (of_nat (64 * c + m))"
  shows "(of_nat (64 * c + m) :: u8) AND QSFP_DD_LEN_MUL_MASK =
           [QSFP_DD_MULTIPLIER_00, QSFP_DD_MULTIPLIER_01, QSFP_DD_MULTIPLIER_10,
            QSFP_DD_MULTIPLIER_11] ! c \<and>
         unat ((of_nat (64 * c + m) :: u8) AND QSFP_DD_LEN_VAL_MASK) = m \<and>
         qsfp_dd_show_cbl_asm_len idb =
           Some [Km ''Cable assembly length''
                   (if c = 0 then f32 (of_nat m * f32 (1 / 10)) else of_nat m * [1, 10, 100] ! (c - 1))] \<and>
         \<bar>f32 (of_nat m * f32 (1 / 10)) - of_nat m / 10\<bar> \<le> of_nat m / 10 ^ 7"
proof -
  note b = len_byte_fields [OF assms(1,2)]
  have ne: "(of_nat (64 * c + m) :: u8) \<noteq> QSFP_DD_6300M_MAX_LEN"
    using assms(3) by (simp only: b(3)) simp
  from \<open>c < 4\<close> consider "c = 0" | "c = 1" | "c = 2" | "c = 3" by linarith
  then have "qsfp_dd_show_cbl_asm_len idb =
           Some [Km ''Cable assembly length''
                   (if c = 0 then f32 (of_nat m * f32 (1 / 10)) else of_nat m * [1, 10, 100] ! (c - 1))]"
    using b(2) cbl_asm_len_value [OF assms(4) ne b(1)] by cases simp_all
  then show ?thesis using f32_tenth_error [of m] b(1,2) by simp
qed

theorem cbl_asm_len_multiplier_witness:
  "(5 :: nat) < 64 \<and> (2 :: nat) < 4 \<and>
   rd (replicate 202 0 @ [0x85]) QSFP_DD_CBL_ASM_LEN_OFFSET = Some (of_nat (64 * 2 + 5)) \<and>
   (0x85 :: u8) AND QSFP_DD_LEN_MUL_MASK = QSFP_DD_MULTIPLIER_10 \<and>
   unat ((0x85 :: u8) AND QSFP_DD_LEN_VAL_MASK) = 5 \<and>
   qsfp_dd_show_cbl_asm_len (replicate 202 0 @ [0x85]) = Some [Km ''Cable assembly length'' 50]"
  using cbl_asm_len_multiplier [of 5 2 "replicate 202 0 @ [0x85]"]
  by (simp add: rd_def len_consts nth_append)

subsection \<open>SMF length\<close>

text \<open>
  C10. For every SMF length byte, with the multiplier code \<open>c\<close> in its bits 7-6 and the
  magnitude \<open>m\<close> in its bits 5-0, the SMF length decoder scales \<open>m\<close> by \<^verbatim>\<open>0.1f\<close> for the code
  00 and by 1 for each of the codes 01, 10 and 11: its \<^verbatim>\<open>switch\<close> has no case for the codes
  10 and 11, which keep the initial value \<^verbatim>\<open>mul = 1.0f\<close>. The cable assembly decoder, given
  the same byte (not \<^verbatim>\<open>0xFF\<close>), scales by 10 and by 100 for these codes.
\<close>

theorem smf_len_multiplier:
  assumes "rd idb QSFP_DD_SMF_LEN_OFFSET = Some b"
    and "unat b div 64 = c"
    and "unat b mod 64 = m"
  shows "b AND QSFP_DD_LEN_MUL_MASK =
           [QSFP_DD_MULTIPLIER_00, QSFP_DD_MULTIPLIER_01, QSFP_DD_MULTIPLIER_10,
            QSFP_DD_MULTIPLIER_11] ! c \<and>
         unat (b AND QSFP_DD_LEN_VAL_MASK) = m \<and>
         qsfp_dd_print_smf_cbl_len idb =
           Some [Km ''Length (SMF)'' (if c = 0 then f32 (of_nat m * f32 (1 / 10)) else of_nat m * 1)] \<and>
         \<bar>f32 (of_nat m * f32 (1 / 10)) - of_nat m / 10\<bar> \<le> of_nat m / 10 ^ 7 \<and>
         (rd idb QSFP_DD_CBL_ASM_LEN_OFFSET = Some b \<and> b \<noteq> QSFP_DD_6300M_MAX_LEN \<longrightarrow>
          qsfp_dd_show_cbl_asm_len idb =
            Some [Km ''Cable assembly length''
                    (if c = 0 then f32 (of_nat m * f32 (1 / 10)) else of_nat m * [1, 10, 100] ! (c - 1))])"
proof -
  have c: "c < 4" and m: "m < 64" using assms(2,3) len_byte_split(2,3) [of b] by simp_all
  have "b = of_nat (64 * c + m)" using len_byte_split(1) [of b] by (simp only: assms(2,3))
  with len_byte_fields [OF m c]
  have sel: "b AND QSFP_DD_LEN_MUL_MASK =
           [QSFP_DD_MULTIPLIER_00, QSFP_DD_MULTIPLIER_01, QSFP_DD_MULTIPLIER_10,
            QSFP_DD_MULTIPLIER_11] ! c"
    and val: "unat (b AND QSFP_DD_LEN_VAL_MASK) = m"
    by simp_all
  from c consider "c = 0" | "c = 1" | "c = 2" | "c = 3" by linarith
  then have "qsfp_dd_print_smf_cbl_len idb =
           Some [Km ''Length (SMF)'' (if c = 0 then f32 (of_nat m * f32 (1 / 10)) else of_nat m * 1)] \<and>
         (rd idb QSFP_DD_CBL_ASM_LEN_OFFSET = Some b \<and> b \<noteq> QSFP_DD_6300M_MAX_LEN \<longrightarrow>
          qsfp_dd_show_cbl_asm_len idb =
            Some [Km ''Cable assembly length''
                    (if c = 0 then f32 (of_nat m * f32 (1 / 10)) else of_nat m * [1, 10, 100] ! (c - 1))])"
    using sel smf_cbl_len_value [OF assms(1) val] cbl_asm_len_value [of idb b m] val
    by cases (simp_all add: QSFP_DD_MULTIPLIER_00_def QSFP_DD_MULTIPLIER_01_def
        QSFP_DD_MULTIPLIER_10_def QSFP_DD_MULTIPLIER_11_def)
  then show ?thesis using f32_tenth_error [of m] sel val by simp
qed

theorem smf_len_multiplier_witness:
  "rd (replicate 202 0 @ [0x85] @ replicate 57 0 @ [0x85]) QSFP_DD_SMF_LEN_OFFSET = Some 0x85 \<and>
   unat (0x85 :: u8) div 64 = 2 \<and> unat (0x85 :: u8) mod 64 = 5 \<and>
   (0x85 :: u8) AND QSFP_DD_LEN_MUL_MASK = QSFP_DD_MULTIPLIER_10 \<and>
   rd (replicate 202 0 @ [0x85] @ replicate 57 0 @ [0x85]) QSFP_DD_CBL_ASM_LEN_OFFSET = Some 0x85 \<and>
   (0x85 :: u8) \<noteq> QSFP_DD_6300M_MAX_LEN \<and>
   qsfp_dd_print_smf_cbl_len (replicate 202 0 @ [0x85] @ replicate 57 0 @ [0x85]) =
     Some [Km ''Length (SMF)'' 5] \<and>
   qsfp_dd_show_cbl_asm_len (replicate 202 0 @ [0x85] @ replicate 57 0 @ [0x85]) =
     Some [Km ''Cable assembly length'' 50]"
  using smf_len_multiplier [of "replicate 202 0 @ [0x85] @ replicate 57 0 @ [0x85]" "0x85" 2 5]
  by (simp add: rd_def len_consts nth_append)

subsection \<open>Media interface technology\<close>

lemma be_int: "push_bit 8 (uint (m::u8)) OR uint (l::u8) = 256 * uint m + uint l"
proof -
  have "push_bit 8 (uint m) AND uint l = 0"
    by (rule bit_eqI) (auto simp: bit_simps dest: bit_imp_le_length)
  then have "push_bit 8 (uint m) + uint l = push_bit 8 (uint m) OR uint l"
    by (rule disjunctive_add_eq_or)
  then show ?thesis by (simp add: push_bit_eq_mult)
qed

lemmas mit_consts =
  QSFP_DD_COPPER_ATT_5GHZ_def QSFP_DD_COPPER_ATT_7GHZ_def QSFP_DD_COPPER_ATT_12P9GHZ_def
  QSFP_DD_COPPER_ATT_25P8GHZ_def QSFP_DD_MEDIA_INTF_TECH_OFFSET_def
  QSFP_DD_NOM_WAVELENGTH_MSB_def QSFP_DD_NOM_WAVELENGTH_LSB_def QSFP_DD_WAVELENGTH_TOL_MSB_def
  QSFP_DD_WAVELENGTH_TOL_LSB_def PAG01H_OFFSET_def

lemma f64_of_int: "\<bar>n\<bar> < 2 ^ 53 \<Longrightarrow> f64 (of_int n) = of_int n"
  using float_round_of_int [of n 53] by (simp add: f64_def)

lemma f64_wavelength_int: "f64 (of_int (wavelength_int m l)) = of_int (256 * uint m + uint l)"
proof -
  have "0 \<le> uint m" "uint m < 256" "0 \<le> uint l" "uint l < 256"
    using uint_lt2p [of m] uint_lt2p [of l] by simp_all
  then have "\<bar>256 * uint m + uint l\<bar> < 2 ^ 53" by simp
  then show ?thesis by (simp only: wavelength_int_def be_int f64_of_int)
qed

text \<open>
  C7. With a technology code at or above \<^verbatim>\<open>QSFP_DD_COPPER_UNEQUAL\<close> (\<^verbatim>\<open>0x0A\<close>) the function
  prints, after the technology line, the four attenuation bytes and nothing else; the
  wavelength bytes are not read. With a code below it the function prints the nominal
  wavelength and the wavelength tolerance and nothing else, each from two bytes combined
  big-endian (\<open>256 * msb + lsb\<close>) and multiplied in \<^verbatim>\<open>double\<close> by \<^verbatim>\<open>0.05\<close> and \<^verbatim>\<open>0.005\<close>; the
  attenuation bytes are not read. The double-precision products differ from the exact
  ones by less than one part in \<open>10\<^sup>1\<^sup>4\<close>.
\<close>

theorem mit_compliance_exclusive:
  assumes "QSFP_DD_MEDIA_INTF_TECH_OFFSET < length idb"
    and "idb ! QSFP_DD_MEDIA_INTF_TECH_OFFSET = t"
    and "256 * uint (idb ! QSFP_DD_NOM_WAVELENGTH_MSB) + uint (idb ! QSFP_DD_NOM_WAVELENGTH_LSB) = w"
    and "256 * uint (idb ! QSFP_DD_WAVELENGTH_TOL_MSB) + uint (idb ! QSFP_DD_WAVELENGTH_TOL_LSB) = tol"
  shows "(QSFP_DD_COPPER_UNEQUAL \<le> t \<longrightarrow>
            qsfp_dd_show_mit_compliance idb =
              Some [Tech ''Transmitter technology'' t (mit_description t),
                    Db ''Attenuation at 5GHz'' (idb ! QSFP_DD_COPPER_ATT_5GHZ),
                    Db ''Attenuation at 7GHz'' (idb ! QSFP_DD_COPPER_ATT_7GHZ),
                    Db ''Attenuation at 12.9GHz'' (idb ! QSFP_DD_COPPER_ATT_12P9GHZ),
                    Db ''Attenuation at 25.8GHz'' (idb ! QSFP_DD_COPPER_ATT_25P8GHZ)]) \<and>
         (t < QSFP_DD_COPPER_UNEQUAL \<and> QSFP_DD_WAVELENGTH_TOL_LSB < length idb \<longrightarrow>
            qsfp_dd_show_mit_compliance idb =
              Some [Tech ''Transmitter technology'' t (mit_description t),
                    Nm ''Laser wavelength'' (f64 (of_int w * f64 (5 / 100))),
                    Nm ''Laser wavelength tolerance'' (f64 (of_int tol * f64 (5 / 1000)))]) \<and>
         \<bar>f64 (of_int w * f64 (5 / 100)) - of_int w * 5 / 100\<bar> \<le> of_int w / 10 ^ 16 \<and>
         \<bar>f64 (of_int tol * f64 (5 / 1000)) - of_int tol * 5 / 1000\<bar> \<le> of_int tol / 10 ^ 17"
proof (intro conjI impI)
  assume "QSFP_DD_COPPER_UNEQUAL \<le> t"
  with assms(1,2) show "qsfp_dd_show_mit_compliance idb =
      Some [Tech ''Transmitter technology'' t (mit_description t),
            Db ''Attenuation at 5GHz'' (idb ! QSFP_DD_COPPER_ATT_5GHZ),
            Db ''Attenuation at 7GHz'' (idb ! QSFP_DD_COPPER_ATT_7GHZ),
            Db ''Attenuation at 12.9GHz'' (idb ! QSFP_DD_COPPER_ATT_12P9GHZ),
            Db ''Attenuation at 25.8GHz'' (idb ! QSFP_DD_COPPER_ATT_25P8GHZ)]"
    by (simp add: qsfp_dd_show_mit_compliance_def rd_def mit_consts)
next
  assume "t < QSFP_DD_COPPER_UNEQUAL \<and> QSFP_DD_WAVELENGTH_TOL_LSB < length idb"
  then have "\<not> QSFP_DD_COPPER_UNEQUAL \<le> t" and "QSFP_DD_WAVELENGTH_TOL_LSB < length idb"
    by (simp_all add: not_le)
  with assms(1,2) have "qsfp_dd_show_mit_compliance idb =
      Some [Tech ''Transmitter technology'' t (mit_description t),
            Nm ''Laser wavelength''
               (f64 (of_int (256 * uint (idb ! QSFP_DD_NOM_WAVELENGTH_MSB) +
                             uint (idb ! QSFP_DD_NOM_WAVELENGTH_LSB)) * f64 (5 / 100))),
            Nm ''Laser wavelength tolerance''
               (f64 (of_int (256 * uint (idb ! QSFP_DD_WAVELENGTH_TOL_MSB) +
                             uint (idb ! QSFP_DD_WAVELENGTH_TOL_LSB)) * f64 (5 / 1000)))]"
    by (simp add: qsfp_dd_show_mit_compliance_def rd_def f64_wavelength_int mit_consts
        del: of_int_add of_int_mult)
  then show "qsfp_dd_show_mit_compliance idb =
      Some [Tech ''Transmitter technology'' t (mit_description t),
            Nm ''Laser wavelength'' (f64 (of_int w * f64 (5 / 100))),
            Nm ''Laser wavelength tolerance'' (f64 (of_int tol * f64 (5 / 1000)))]"
    by (simp only: assms(3,4))
next
  have "0 \<le> w" using assms(3) by auto
  then show "\<bar>f64 (of_int w * f64 (5 / 100)) - of_int w * 5 / 100\<bar> \<le> of_int w / 10 ^ 16"
    by (rule f64_scale_error)
next
  have "0 \<le> tol" using assms(4) by auto
  then show "\<bar>f64 (of_int tol * f64 (5 / 1000)) - of_int tol * 5 / 1000\<bar> \<le> of_int tol / 10 ^ 17"
    by (rule f64_scale_error)
qed

theorem mit_compliance_exclusive_witness:
  "QSFP_DD_MEDIA_INTF_TECH_OFFSET < length ((replicate 270 0x11)[212 := 0x0B]) \<and>
   (replicate 270 0x11)[212 := 0x0B] ! QSFP_DD_MEDIA_INTF_TECH_OFFSET = 0x0B \<and>
   QSFP_DD_COPPER_UNEQUAL \<le> 0x0B \<and>
   qsfp_dd_show_mit_compliance ((replicate 270 0x11)[212 := 0x0B]) =
     Some [Tech ''Transmitter technology'' 0x0B '' (Copper cable, passive equalized)'',
           Db ''Attenuation at 5GHz'' 0x11, Db ''Attenuation at 7GHz'' 0x11,
           Db ''Attenuation at 12.9GHz'' 0x11, Db ''Attenuation at 25.8GHz'' 0x11] \<and>
   QSFP_DD_MEDIA_INTF_TECH_OFFSET < length ((replicate 270 0x11)[212 := 0x04]) \<and>
   (replicate 270 0x11)[212 := 0x04] ! QSFP_DD_MEDIA_INTF_TECH_OFFSET = 0x04 \<and>
   0x04 < QSFP_DD_COPPER_UNEQUAL \<and>
   QSFP_DD_WAVELENGTH_TOL_LSB < length ((replicate 270 0x11)[212 := 0x04]) \<and>
   256 * uint ((replicate 270 (0x11 :: u8))[212 := 0x04] ! QSFP_DD_NOM_WAVELENGTH_MSB) +
     uint ((replicate 270 (0x11 :: u8))[212 := 0x04] ! QSFP_DD_NOM_WAVELENGTH_LSB) = 4369 \<and>
   256 * uint ((replicate 270 (0x11 :: u8))[212 := 0x04] ! QSFP_DD_WAVELENGTH_TOL_MSB) +
     uint ((replicate 270 (0x11 :: u8))[212 := 0x04] ! QSFP_DD_WAVELENGTH_TOL_LSB) = 4369 \<and>
   qsfp_dd_show_mit_compliance ((replicate 270 0x11)[212 := 0x04]) =
     Some [Tech ''Transmitter technology'' 0x04 '' (1310 nm DFB)'',
           Nm ''Laser wavelength'' (f64 (4369 * f64 (5 / 100))),
           Nm ''Laser wavelength tolerance'' (f64 (4369 * f64 (5 / 1000)))]"
  using mit_compliance_exclusive [of "(replicate 270 0x11)[212 := 0x0B]" "0x0B" 4369 4369]
    mit_compliance_exclusive [of "(replicate 270 0x11)[212 := 0x04]" "0x04" 4369 4369]
  by (simp add: mit_consts mit_description_def QSFP_DD_COPPER_UNEQUAL_def QSFP_DD_COPPER_PASS_EQUAL_def
      QSFP_DD_850_VCSEL_def QSFP_DD_1310_VCSEL_def QSFP_DD_1550_VCSEL_def QSFP_DD_1310_FP_def
      QSFP_DD_1310_DFB_def QSFP_DD_1550_DFB_def QSFP_DD_1310_EML_def QSFP_DD_1550_EML_def
      QSFP_DD_OTHERS_def QSFP_DD_1490_DFB_def)

subsection \<open>Diagnostics: what is read\<close>

lemmas diag_consts =
  QSFP_DD_MAX_CHANNELS_def QSFP_DD_READ_TX_def QSFP_DD_READ_RX_def HA_def LA_def HW_def LW_def
  QSFP_DD_MODULE_TYPE_OFFSET_def QSFP_DD_CURR_TEMP_OFFSET_def QSFP_DD_CURR_CURR_OFFSET_def
  PAG02H_OFFSET_def QSFP_DD_TEMP_THRS_START_OFFSET_def QSFP_DD_VOLT_THRS_START_OFFSET_def
  QSFP_DD_TXPW_THRS_START_OFFSET_def QSFP_DD_TXBI_THRS_START_OFFSET_def
  QSFP_DD_RXPW_THRS_START_OFFSET_def PAG11H_OFFSET_def QSFP_DD_TX_PWR_START_OFFSET_def
  QSFP_DD_TX_BIAS_START_OFFSET_def QSFP_DD_RX_PWR_START_OFFSET_def QSFP_DD_TX_HA_OFFSET_def
  QSFP_DD_TX_LA_OFFSET_def QSFP_DD_TX_HW_OFFSET_def QSFP_DD_TX_LW_OFFSET_def
  QSFP_DD_RX_HA_OFFSET_def QSFP_DD_RX_LA_OFFSET_def QSFP_DD_RX_HW_OFFSET_def
  QSFP_DD_RX_LW_OFFSET_def

lemma list_update_Cons_numeral: "(x # xs)[numeral k := y] = x # xs[pred_numeral k := y]"
  by (simp add: numeral_eq_Suc)

lemma upt_0_4: "[0..<4] = [0, 1, 2, 3]"
  by (simp add: eval_nat_numeral)

lemma upt_0_8: "[0..<8] = [0, 1, 2, 3, 4, 5, 6, 7]"
  by (simp add: eval_nat_numeral)

lemma replicate_4: "replicate 4 x = [x, x, x, x]"
  by (simp add: eval_nat_numeral)

lemma replicate_8: "replicate 8 x = [x, x, x, x, x, x, x, x]"
  by (simp add: eval_nat_numeral)

lemma and_mask_bit:
  fixes x :: u8
  shows "(x AND 1 \<noteq> 0) = bit x 0" "(x AND 2 \<noteq> 0) = bit x (Suc 0)"
    "(x AND 4 \<noteq> 0) = bit x 2" "(x AND 8 \<noteq> 0) = bit x 3"
    "(x AND 16 \<noteq> 0) = bit x 4" "(x AND 32 \<noteq> 0) = bit x 5"
    "(x AND 64 \<noteq> 0) = bit x 6" "(x AND 128 \<noteq> 0) = bit x 7"
  using bit_iff_and_push_bit_not_eq_0 [of x 0] bit_iff_and_push_bit_not_eq_0 [of x 1]
    bit_iff_and_push_bit_not_eq_0 [of x 2] bit_iff_and_push_bit_not_eq_0 [of x 3]
    bit_iff_and_push_bit_not_eq_0 [of x 4] bit_iff_and_push_bit_not_eq_0 [of x 5]
    bit_iff_and_push_bit_not_eq_0 [of x 6] bit_iff_and_push_bit_not_eq_0 [of x 7]
  by simp_all

lemma rd_Some: "off < length idb \<Longrightarrow> rd idb off = Some (idb ! off)"
  by (simp add: rd_def)

lemma OFFSET_TO_U16_Some:
  "off + 1 < length idb \<Longrightarrow> OFFSET_TO_U16 idb off = Some (u16_be (idb ! off) (idb ! (off + 1)))"
  by (simp add: OFFSET_TO_U16_def rd_def)

lemma OFFSET_TO_U16_None: "length idb \<le> off + 1 \<Longrightarrow> OFFSET_TO_U16 idb off = None"
  by (simp add: OFFSET_TO_U16_def rd_def)

lemma OFFSET_TO_TEMP_Some:
  "off + 1 < length idb \<Longrightarrow>
   OFFSET_TO_TEMP idb off = Some (sint (u16_be (idb ! off) (idb ! (off + 1))))"
  by (simp add: OFFSET_TO_TEMP_def OFFSET_TO_U16_Some)

lemma u16_be_value: "unat (u16_be hi lo) = 256 * unat hi + unat lo"
proof -
  have "push_bit 8 (ucast hi :: u16) AND ucast lo = 0"
    by (rule bit_eqI) (auto simp: bit_simps dest: bit_imp_le_length)
  then have "push_bit 8 (ucast hi :: u16) + ucast lo = push_bit 8 (ucast hi) OR ucast lo"
    by (rule disjunctive_add_eq_or)
  then have "unat (u16_be hi lo) = unat (256 * ucast hi + ucast lo :: u16)"
    by (simp add: u16_be_def push_bit_eq_mult mult.commute)
  also have "\<dots> = 256 * unat hi + unat lo"
  proof -
    have hi: "unat hi < 256" and lo: "unat lo < 256"
      using unsigned_less [of hi, where ?'a = nat] unsigned_less [of lo, where ?'a = nat]
      by simp_all
    then have "unat (ucast hi :: u16) = unat hi" and "unat (ucast lo :: u16) = unat lo"
      by (simp_all add: unsigned_ucast_eq take_bit_nat_eq_self_iff)
    with hi lo show ?thesis by (simp add: unat_word_ariths)
  qed
  finally show ?thesis .
qed

text \<open>The diagnostics read from a buffer of at least 714 bytes.\<close>

lemma parse_diagnostics_closed:
  assumes "714 \<le> length idb"
  shows "qsfp_dd_parse_diagnostics idb sd_zero = Some
    \<lparr>sfp_voltage = map (\<lambda>i. u16_be (idb ! (QSFP_DD_VOLT_THRS_START_OFFSET + 2 * i))
                                  (idb ! (QSFP_DD_VOLT_THRS_START_OFFSET + 2 * i + 1))) [0..<4],
     sfp_temp = map (\<lambda>i. sint (u16_be (idb ! (QSFP_DD_TEMP_THRS_START_OFFSET + 2 * i))
                                     (idb ! (QSFP_DD_TEMP_THRS_START_OFFSET + 2 * i + 1)))) [0..<4],
     bias_cur = map (\<lambda>i. u16_be (idb ! (QSFP_DD_TXBI_THRS_START_OFFSET + 2 * i))
                               (idb ! (QSFP_DD_TXBI_THRS_START_OFFSET + 2 * i + 1))) [0..<4],
     tx_power = map (\<lambda>i. u16_be (idb ! (QSFP_DD_TXPW_THRS_START_OFFSET + 2 * i))
                               (idb ! (QSFP_DD_TXPW_THRS_START_OFFSET + 2 * i + 1))) [0..<4],
     rx_power = map (\<lambda>i. u16_be (idb ! (QSFP_DD_RXPW_THRS_START_OFFSET + 2 * i))
                               (idb ! (QSFP_DD_RXPW_THRS_START_OFFSET + 2 * i + 1))) [0..<4],
     rxaw = map (\<lambda>ch. map (\<lambda>k. bit (idb ! (QSFP_DD_RX_HA_OFFSET + k)) ch) [0..<4]) [0..<8],
     txaw = map (\<lambda>ch. map (\<lambda>k. bit (idb ! (QSFP_DD_TX_HA_OFFSET + k)) ch) [0..<4]) [0..<8],
     scd = map (\<lambda>i.
       \<lparr>qsfp_dd_channel_diags.bias_cur =
          u16_be (idb ! (QSFP_DD_TX_BIAS_START_OFFSET + 2 * i))
                 (idb ! (QSFP_DD_TX_BIAS_START_OFFSET + 2 * i + 1)),
        rx_power = u16_be (idb ! (QSFP_DD_RX_PWR_START_OFFSET + 2 * i))
                          (idb ! (QSFP_DD_RX_PWR_START_OFFSET + 2 * i + 1)),
        tx_power = u16_be (idb ! (QSFP_DD_TX_PWR_START_OFFSET + 2 * i))
                          (idb ! (QSFP_DD_TX_PWR_START_OFFSET + 2 * i + 1))\<rparr>) [0..<8]\<rparr>"
  using assms
  by (simp add: qsfp_dd_parse_diagnostics_def qsfp_dd_read_aw_for_channel_def
      OFFSET_TO_U16_Some OFFSET_TO_TEMP_Some rd_Some diag_consts u16_offset_def push_bit_eq_mult
      sd_zero_def list_update_Cons_numeral upt_0_4 upt_0_8 replicate_4 replicate_8 and_mask_bit)

lemma for_loop_None:
  assumes "i \<in> set is" and "\<And>s. body i s = None"
  shows "for_loop is body s = None"
  using assms(1)
proof (induction "is" arbitrary: s)
  case Nil
  then show ?case by simp
next
  case (Cons j js)
  show ?case
  proof (cases "body j s")
    case None
    then show ?thesis by simp
  next
    case (Some s')
    show ?thesis
    proof (cases "j = i")
      case True
      with Some assms(2) [of s] show ?thesis by simp
    next
      case False
      with Cons.prems have "i \<in> set js" by simp
      with Some Cons.IH [of s'] show ?thesis by simp
    qed
  qed
qed

lemma parse_diagnostics_None:
  assumes "length idb < 714"
  shows "qsfp_dd_parse_diagnostics idb sd = None"
proof -
  have rx: "OFFSET_TO_U16 idb 712 = None" using assms by (simp add: OFFSET_TO_U16_None)
  have "for_loop [0..<QSFP_DD_MAX_CHANNELS] (\<lambda>i sd. do {
       let tx_bias_offset = u16_offset (QSFP_DD_TX_BIAS_START_OFFSET + push_bit 1 i);
       let rx_power_offset = u16_offset (QSFP_DD_RX_PWR_START_OFFSET + push_bit 1 i);
       let tx_power_offset = u16_offset (QSFP_DD_TX_PWR_START_OFFSET + push_bit 1 i);
       v \<leftarrow> OFFSET_TO_U16 idb tx_bias_offset;
       let sd = sd\<lparr>scd := (scd sd)[i := (scd sd ! i)\<lparr>qsfp_dd_channel_diags.bias_cur := v\<rparr>]\<rparr>;
       v \<leftarrow> OFFSET_TO_U16 idb rx_power_offset;
       let sd = sd\<lparr>scd := (scd sd)[i := (scd sd ! i)\<lparr>qsfp_dd_channel_diags.rx_power := v\<rparr>]\<rparr>;
       v \<leftarrow> OFFSET_TO_U16 idb tx_power_offset;
       let sd = sd\<lparr>scd := (scd sd)[i := (scd sd ! i)\<lparr>qsfp_dd_channel_diags.tx_power := v\<rparr>]\<rparr>;
       sd \<leftarrow> qsfp_dd_read_aw_for_channel idb i QSFP_DD_READ_TX sd;
       qsfp_dd_read_aw_for_channel idb i QSFP_DD_READ_RX sd
     }) sd = None"
  proof (rule for_loop_None [of 7])
    show "7 \<in> set [0..<QSFP_DD_MAX_CHANNELS]" by (simp add: QSFP_DD_MAX_CHANNELS_def)
  next
    fix s
    show "do {
       let tx_bias_offset = u16_offset (QSFP_DD_TX_BIAS_START_OFFSET + push_bit 1 7);
       let rx_power_offset = u16_offset (QSFP_DD_RX_PWR_START_OFFSET + push_bit 1 7);
       let tx_power_offset = u16_offset (QSFP_DD_TX_PWR_START_OFFSET + push_bit 1 7);
       v \<leftarrow> OFFSET_TO_U16 idb tx_bias_offset;
       let sd = s\<lparr>scd := (scd s)[7 := (scd s ! 7)\<lparr>qsfp_dd_channel_diags.bias_cur := v\<rparr>]\<rparr>;
       v \<leftarrow> OFFSET_TO_U16 idb rx_power_offset;
       let sd = sd\<lparr>scd := (scd sd)[7 := (scd sd ! 7)\<lparr>qsfp_dd_channel_diags.rx_power := v\<rparr>]\<rparr>;
       v \<leftarrow> OFFSET_TO_U16 idb tx_power_offset;
       let sd = sd\<lparr>scd := (scd sd)[7 := (scd sd ! 7)\<lparr>qsfp_dd_channel_diags.tx_power := v\<rparr>]\<rparr>;
       sd \<leftarrow> qsfp_dd_read_aw_for_channel idb 7 QSFP_DD_READ_TX sd;
       qsfp_dd_read_aw_for_channel idb 7 QSFP_DD_READ_RX sd
     } = None"
      using rx
      by (cases "OFFSET_TO_U16 idb 696")
        (simp_all add: diag_consts u16_offset_def push_bit_eq_mult)
  qed
  then show ?thesis by (simp add: qsfp_dd_parse_diagnostics_def)
qed

lemma parse_diagnostics_Some_length:
  "qsfp_dd_parse_diagnostics idb sd = Some sd' \<Longrightarrow> 714 \<le> length idb"
  using parse_diagnostics_None [of idb sd] by (cases "length idb < 714") simp_all

lemma flip_bit: "bit ((x :: u8) XOR 2 ^ k) ch = (bit x ch \<noteq> (ch = k \<and> k < 8))"
  by (auto simp: bit_simps dest: bit_imp_le_length)

lemma aw_matrix_flip:
  fixes idb :: "u8 list"
  assumes "k < 8" and "c < 4" and "base + 3 < length idb"
  shows "map (\<lambda>ch. map (\<lambda>j. bit ((idb[base + c := idb ! (base + c) XOR push_bit k 1]) ! (base + j)) ch)
                 [0..<4]) [0..<8] =
         (map (\<lambda>ch. map (\<lambda>j. bit (idb ! (base + j)) ch) [0..<4]) [0..<8])
           [k := (map (\<lambda>ch. map (\<lambda>j. bit (idb ! (base + j)) ch) [0..<4]) [0..<8] ! k)
                   [c := \<not> map (\<lambda>ch. map (\<lambda>j. bit (idb ! (base + j)) ch) [0..<4]) [0..<8] ! k ! c]]"
    (is "?L = ?R")
proof (rule nth_equalityI)
  show "length ?L = length ?R" by simp
next
  fix ch
  assume "ch < length ?L"
  then have ch: "ch < 8" by simp
  show "?L ! ch = ?R ! ch"
  proof (rule nth_equalityI)
    show "length (?L ! ch) = length (?R ! ch)"
      using ch assms by (simp add: nth_list_update del: upt.simps)
  next
    fix j
    assume "j < length (?L ! ch)"
    with ch have j: "j < 4" by simp
    show "?L ! ch ! j = ?R ! ch ! j"
      using ch j assms by (simp add: nth_list_update flip_bit del: upt.simps)
  qed
qed

lemma aw_offsets:
  assumes "c < 4"
  shows "[QSFP_DD_TX_HA_OFFSET, QSFP_DD_TX_LA_OFFSET, QSFP_DD_TX_HW_OFFSET, QSFP_DD_TX_LW_OFFSET] ! c =
           QSFP_DD_TX_HA_OFFSET + c"
    and "[QSFP_DD_RX_HA_OFFSET, QSFP_DD_RX_LA_OFFSET, QSFP_DD_RX_HW_OFFSET, QSFP_DD_RX_LW_OFFSET] ! c =
           QSFP_DD_RX_HA_OFFSET + c"
proof -
  from assms consider "c = 0" | "c = 1" | "c = 2" | "c = 3" by linarith
  then show "[QSFP_DD_TX_HA_OFFSET, QSFP_DD_TX_LA_OFFSET, QSFP_DD_TX_HW_OFFSET, QSFP_DD_TX_LW_OFFSET] ! c =
           QSFP_DD_TX_HA_OFFSET + c"
    by cases (simp_all add: diag_consts)
  from assms consider "c = 0" | "c = 1" | "c = 2" | "c = 3" by linarith
  then show "[QSFP_DD_RX_HA_OFFSET, QSFP_DD_RX_LA_OFFSET, QSFP_DD_RX_HW_OFFSET, QSFP_DD_RX_LW_OFFSET] ! c =
           QSFP_DD_RX_HA_OFFSET + c"
    by cases (simp_all add: diag_consts)
qed

lemma parse_diagnostics_fields:
  assumes "qsfp_dd_parse_diagnostics idb sd_zero = Some sd"
  shows "sfp_voltage sd = map (\<lambda>i. u16_be (idb ! (QSFP_DD_VOLT_THRS_START_OFFSET + 2 * i))
                                       (idb ! (QSFP_DD_VOLT_THRS_START_OFFSET + 2 * i + 1))) [0..<4]"
    and "sfp_temp sd = map (\<lambda>i. sint (u16_be (idb ! (QSFP_DD_TEMP_THRS_START_OFFSET + 2 * i))
                                          (idb ! (QSFP_DD_TEMP_THRS_START_OFFSET + 2 * i + 1)))) [0..<4]"
    and "qsfp_dd_diags.bias_cur sd =
           map (\<lambda>i. u16_be (idb ! (QSFP_DD_TXBI_THRS_START_OFFSET + 2 * i))
                           (idb ! (QSFP_DD_TXBI_THRS_START_OFFSET + 2 * i + 1))) [0..<4]"
    and "qsfp_dd_diags.tx_power sd =
           map (\<lambda>i. u16_be (idb ! (QSFP_DD_TXPW_THRS_START_OFFSET + 2 * i))
                           (idb ! (QSFP_DD_TXPW_THRS_START_OFFSET + 2 * i + 1))) [0..<4]"
    and "qsfp_dd_diags.rx_power sd =
           map (\<lambda>i. u16_be (idb ! (QSFP_DD_RXPW_THRS_START_OFFSET + 2 * i))
                           (idb ! (QSFP_DD_RXPW_THRS_START_OFFSET + 2 * i + 1))) [0..<4]"
    and "rxaw sd = map (\<lambda>ch. map (\<lambda>k. bit (idb ! (QSFP_DD_RX_HA_OFFSET + k)) ch) [0..<4]) [0..<8]"
    and "txaw sd = map (\<lambda>ch. map (\<lambda>k. bit (idb ! (QSFP_DD_TX_HA_OFFSET + k)) ch) [0..<4]) [0..<8]"
    and "scd sd = map (\<lambda>i.
       \<lparr>qsfp_dd_channel_diags.bias_cur =
          u16_be (idb ! (QSFP_DD_TX_BIAS_START_OFFSET + 2 * i))
                 (idb ! (QSFP_DD_TX_BIAS_START_OFFSET + 2 * i + 1)),
        rx_power = u16_be (idb ! (QSFP_DD_RX_PWR_START_OFFSET + 2 * i))
                          (idb ! (QSFP_DD_RX_PWR_START_OFFSET + 2 * i + 1)),
        tx_power = u16_be (idb ! (QSFP_DD_TX_PWR_START_OFFSET + 2 * i))
                          (idb ! (QSFP_DD_TX_PWR_START_OFFSET + 2 * i + 1))\<rparr>) [0..<8]"
    and "qsfp_dd_diags.more sd = ()"
  using assms parse_diagnostics_closed [OF parse_diagnostics_Some_length [OF assms]]
  by auto

lemma parse_zero_buffer:
  assumes "714 \<le> m"
  shows "qsfp_dd_parse_diagnostics (replicate m 0) sd_zero = Some sd_zero"
proof -
  obtain sd where sd: "qsfp_dd_parse_diagnostics (replicate m 0) sd_zero = Some sd"
    using parse_diagnostics_closed [of "replicate m 0"] assms by auto
  have "sd = sd_zero"
    using assms
    by (intro qsfp_dd_diags.equality)
      (simp_all add: parse_diagnostics_fields [OF sd] sd_zero_def upt_0_4 upt_0_8 replicate_4
        replicate_8 u16_be_def diag_consts)
  with sd show ?thesis by simp
qed

subsection \<open>Diagnostics: what is printed\<close>

lemma sig_optical_pwr_absent:
  assumes "QSFP_DD_MODULE_TYPE_OFFSET < length idb"
    and "idb ! QSFP_DD_MODULE_TYPE_OFFSET \<noteq> QSFP_DD_MT_MMF"
    and "idb ! QSFP_DD_MODULE_TYPE_OFFSET \<noteq> QSFP_DD_MT_SMF"
    and "eeprom_len \<noteq> QSFP_DD_EEPROM_5PAG"
  shows "qsfp_dd_show_sig_optical_pwr idb eeprom_len =
    Some [PRINT_TEMP ''Module temperature''
            (sint (u16_be (idb ! QSFP_DD_CURR_TEMP_OFFSET) (idb ! (QSFP_DD_CURR_TEMP_OFFSET + 1)))),
          PRINT_VCC ''Module voltage''
            (u16_be (idb ! QSFP_DD_CURR_CURR_OFFSET) (idb ! (QSFP_DD_CURR_CURR_OFFSET + 1)))]"
  using assms
  by (simp add: qsfp_dd_show_sig_optical_pwr_def rd_Some OFFSET_TO_U16_Some OFFSET_TO_TEMP_Some
      QSFP_DD_MODULE_TYPE_OFFSET_def QSFP_DD_CURR_TEMP_OFFSET_def QSFP_DD_CURR_CURR_OFFSET_def)

lemma sig_optical_pwr_outside:
  assumes "length idb < 714"
    and "idb ! QSFP_DD_MODULE_TYPE_OFFSET = QSFP_DD_MT_MMF \<or>
         idb ! QSFP_DD_MODULE_TYPE_OFFSET = QSFP_DD_MT_SMF \<or> eeprom_len = QSFP_DD_EEPROM_5PAG"
  shows "qsfp_dd_show_sig_optical_pwr idb eeprom_len = None"
proof (cases "QSFP_DD_MODULE_TYPE_OFFSET < length idb")
  case False
  then show ?thesis by (simp add: qsfp_dd_show_sig_optical_pwr_def rd_def)
next
  case True
  then have "qsfp_dd_show_sig_optical_pwr idb eeprom_len =
      Option.bind (qsfp_dd_parse_diagnostics idb sd_zero) (\<lambda>sd. Some
        ([PRINT_TEMP ''Module temperature''
            (sint (u16_be (idb ! QSFP_DD_CURR_TEMP_OFFSET) (idb ! (QSFP_DD_CURR_TEMP_OFFSET + 1)))),
          PRINT_VCC ''Module voltage''
            (u16_be (idb ! QSFP_DD_CURR_CURR_OFFSET) (idb ! (QSFP_DD_CURR_CURR_OFFSET + 1)))]
         @ map (\<lambda>i. PRINT_BIAS (snprintf QSFP_DD_MAX_DESC_SIZE (cs ''Tx bias current monitor'' (i + 1)))
                       (qsfp_dd_channel_diags.bias_cur (scd sd ! i)))
             [0..<QSFP_DD_MAX_CHANNELS]
         @ map (\<lambda>i. PRINT_xX_PWR (snprintf QSFP_DD_MAX_DESC_SIZE (cs ''Tx output optical power'' (i + 1)))
                       (qsfp_dd_channel_diags.tx_power (scd sd ! i)))
             [0..<QSFP_DD_MAX_CHANNELS]
         @ map (\<lambda>i. PRINT_xX_PWR (snprintf QSFP_DD_MAX_DESC_SIZE (cs ''Rx input optical power'' (i + 1)))
                       (qsfp_dd_channel_diags.rx_power (scd sd ! i)))
             [0..<QSFP_DD_MAX_CHANNELS]
         @ concat (map (\<lambda>i. map (\<lambda>j.
               Line (snprintf QSFP_DD_MAX_DESC_SIZE ((aw_strings ! j) ''Rx'' (i + 1)))
                    (ONOFF (rxaw sd ! i ! j))) [0..<4]) [0..<QSFP_DD_MAX_CHANNELS])
         @ concat (map (\<lambda>i. map (\<lambda>j.
               Line (snprintf QSFP_DD_MAX_DESC_SIZE ((aw_strings ! j) ''Tx'' (i + 1)))
                    (ONOFF (rxaw sd ! i ! j))) [0..<4]) [0..<QSFP_DD_MAX_CHANNELS])
         @ qsfp_dd_show_thresholds sd))"
    using assms(2)
    by (auto simp: qsfp_dd_show_sig_optical_pwr_def rd_Some OFFSET_TO_U16_Some OFFSET_TO_TEMP_Some
        QSFP_DD_MODULE_TYPE_OFFSET_def QSFP_DD_CURR_TEMP_OFFSET_def QSFP_DD_CURR_CURR_OFFSET_def)
  then show ?thesis using assms(1) by (simp add: parse_diagnostics_None)
qed

lemma sig_optical_pwr_present:
  assumes "714 \<le> length idb"
    and "idb ! QSFP_DD_MODULE_TYPE_OFFSET = QSFP_DD_MT_MMF \<or>
         idb ! QSFP_DD_MODULE_TYPE_OFFSET = QSFP_DD_MT_SMF \<or> eeprom_len = QSFP_DD_EEPROM_5PAG"
    and "qsfp_dd_parse_diagnostics idb sd_zero = Some sd"
  shows "qsfp_dd_show_sig_optical_pwr idb eeprom_len = Some
        ([PRINT_TEMP ''Module temperature''
            (sint (u16_be (idb ! QSFP_DD_CURR_TEMP_OFFSET) (idb ! (QSFP_DD_CURR_TEMP_OFFSET + 1)))),
          PRINT_VCC ''Module voltage''
            (u16_be (idb ! QSFP_DD_CURR_CURR_OFFSET) (idb ! (QSFP_DD_CURR_CURR_OFFSET + 1)))]
         @ map (\<lambda>i. PRINT_BIAS (snprintf QSFP_DD_MAX_DESC_SIZE (cs ''Tx bias current monitor'' (i + 1)))
                       (qsfp_dd_channel_diags.bias_cur (scd sd ! i)))
             [0..<QSFP_DD_MAX_CHANNELS]
         @ map (\<lambda>i. PRINT_xX_PWR (snprintf QSFP_DD_MAX_DESC_SIZE (cs ''Tx output optical power'' (i + 1)))
                       (qsfp_dd_channel_diags.tx_power (scd sd ! i)))
             [0..<QSFP_DD_MAX_CHANNELS]
         @ map (\<lambda>i. PRINT_xX_PWR (snprintf QSFP_DD_MAX_DESC_SIZE (cs ''Rx input optical power'' (i + 1)))
                       (qsfp_dd_channel_diags.rx_power (scd sd ! i)))
             [0..<QSFP_DD_MAX_CHANNELS]
         @ concat (map (\<lambda>i. map (\<lambda>j.
               Line (snprintf QSFP_DD_MAX_DESC_SIZE ((aw_strings ! j) ''Rx'' (i + 1)))
                    (ONOFF (rxaw sd ! i ! j))) [0..<4]) [0..<QSFP_DD_MAX_CHANNELS])
         @ concat (map (\<lambda>i. map (\<lambda>j.
               Line (snprintf QSFP_DD_MAX_DESC_SIZE ((aw_strings ! j) ''Tx'' (i + 1)))
                    (ONOFF (rxaw sd ! i ! j))) [0..<4]) [0..<QSFP_DD_MAX_CHANNELS])
         @ qsfp_dd_show_thresholds sd)"
  using assms
  by (auto simp: qsfp_dd_show_sig_optical_pwr_def rd_Some OFFSET_TO_U16_Some OFFSET_TO_TEMP_Some
      QSFP_DD_MODULE_TYPE_OFFSET_def QSFP_DD_CURR_TEMP_OFFSET_def QSFP_DD_CURR_CURR_OFFSET_def)

lemma sig_optical_pwr_present_length:
  assumes "714 \<le> length idb"
    and "idb ! QSFP_DD_MODULE_TYPE_OFFSET = QSFP_DD_MT_MMF \<or>
         idb ! QSFP_DD_MODULE_TYPE_OFFSET = QSFP_DD_MT_SMF \<or> eeprom_len = QSFP_DD_EEPROM_5PAG"
  shows "\<exists>out. qsfp_dd_show_sig_optical_pwr idb eeprom_len = Some out \<and> length out = 110"
proof -
  from assms(1) obtain sd where sd: "qsfp_dd_parse_diagnostics idb sd_zero = Some sd"
    using parse_diagnostics_closed by blast
  show ?thesis
    unfolding sig_optical_pwr_present [OF assms sd]
    by (simp add: QSFP_DD_MAX_CHANNELS_def qsfp_dd_show_thresholds_def length_concat upt_0_8 upt_0_4)
qed

lemma snprintf_cs:
  assumes "d < 10" and "length s \<le> 29"
  shows "snprintf QSFP_DD_MAX_DESC_SIZE (cs s d) = cs s d"
  using assms by (simp add: snprintf_def cs_def dec.simps QSFP_DD_MAX_DESC_SIZE_def)

lemma sig_optical_pwr_channel_lines:
  assumes "714 \<le> length idb"
    and "idb ! QSFP_DD_MODULE_TYPE_OFFSET = QSFP_DD_MT_MMF \<or>
         idb ! QSFP_DD_MODULE_TYPE_OFFSET = QSFP_DD_MT_SMF \<or> eeprom_len = QSFP_DD_EEPROM_5PAG"
    and "qsfp_dd_parse_diagnostics idb sd_zero = Some sd"
    and "i < QSFP_DD_MAX_CHANNELS"
  shows "the (qsfp_dd_show_sig_optical_pwr idb eeprom_len) ! (2 + i) =
          PRINT_BIAS (cs ''Tx bias current monitor'' (i + 1))
            (qsfp_dd_channel_diags.bias_cur (scd sd ! i))"
    and "the (qsfp_dd_show_sig_optical_pwr idb eeprom_len) ! (10 + i) =
          PRINT_xX_PWR (cs ''Tx output optical power'' (i + 1))
            (qsfp_dd_channel_diags.tx_power (scd sd ! i))"
    and "the (qsfp_dd_show_sig_optical_pwr idb eeprom_len) ! (18 + i) =
          PRINT_xX_PWR (cs ''Rx input optical power'' (i + 1))
            (qsfp_dd_channel_diags.rx_power (scd sd ! i))"
  using assms(4)
  by (simp_all add: sig_optical_pwr_present [OF assms(1,2,3)] nth_append snprintf_cs
      QSFP_DD_MAX_CHANNELS_def del: upt.simps)

subsection \<open>The test that guards the extraction\<close>

text \<open>
  C1. The claim: the diagnostics are extracted if and only if the module type is MMF or SMF
  and the declared length is 768. The function returns early only when the module type is
  not MMF and is not SMF and the declared length is not 768: the three tests are joined by
  \<^verbatim>\<open>&&\<close>. So, on a buffer that holds all the pages, the report stops after the temperature
  and the voltage exactly in that case, and the diagnostics are extracted when the module
  type is a fibre type or the declared length is 768, one of the two being enough. A
  768-byte buffer with the module type \<^verbatim>\<open>0x03\<close> gets the full diagnostics.
\<close>

theorem gate_as_coded:
  assumes "714 \<le> length idb"
  shows "(qsfp_dd_show_sig_optical_pwr idb eeprom_len =
            Some [PRINT_TEMP ''Module temperature''
                    (sint (u16_be (idb ! QSFP_DD_CURR_TEMP_OFFSET) (idb ! (QSFP_DD_CURR_TEMP_OFFSET + 1)))),
                  PRINT_VCC ''Module voltage''
                    (u16_be (idb ! QSFP_DD_CURR_CURR_OFFSET) (idb ! (QSFP_DD_CURR_CURR_OFFSET + 1)))]) =
         (idb ! QSFP_DD_MODULE_TYPE_OFFSET \<noteq> QSFP_DD_MT_MMF \<and>
          idb ! QSFP_DD_MODULE_TYPE_OFFSET \<noteq> QSFP_DD_MT_SMF \<and>
          eeprom_len \<noteq> QSFP_DD_EEPROM_5PAG)"
proof (cases "idb ! QSFP_DD_MODULE_TYPE_OFFSET \<noteq> QSFP_DD_MT_MMF \<and>
          idb ! QSFP_DD_MODULE_TYPE_OFFSET \<noteq> QSFP_DD_MT_SMF \<and>
          eeprom_len \<noteq> QSFP_DD_EEPROM_5PAG")
  case True
  moreover have "QSFP_DD_MODULE_TYPE_OFFSET < length idb"
    using assms by (simp add: QSFP_DD_MODULE_TYPE_OFFSET_def)
  ultimately show ?thesis by (simp add: sig_optical_pwr_absent)
next
  case False
  then have "idb ! QSFP_DD_MODULE_TYPE_OFFSET = QSFP_DD_MT_MMF \<or>
         idb ! QSFP_DD_MODULE_TYPE_OFFSET = QSFP_DD_MT_SMF \<or> eeprom_len = QSFP_DD_EEPROM_5PAG"
    by blast
  from sig_optical_pwr_present_length [OF assms this]
  obtain out where "qsfp_dd_show_sig_optical_pwr idb eeprom_len = Some out" and "length out = 110"
    by blast
  with False show ?thesis by auto
qed

theorem gate_as_coded_witness:
  "714 \<le> length ((replicate 768 0)[QSFP_DD_MODULE_TYPE_OFFSET := 0x03 :: u8]) \<and>
   (replicate 768 0)[QSFP_DD_MODULE_TYPE_OFFSET := 0x03] ! QSFP_DD_MODULE_TYPE_OFFSET \<noteq> QSFP_DD_MT_MMF \<and>
   (replicate 768 0)[QSFP_DD_MODULE_TYPE_OFFSET := 0x03] ! QSFP_DD_MODULE_TYPE_OFFSET \<noteq> QSFP_DD_MT_SMF \<and>
   qsfp_dd_show_sig_optical_pwr ((replicate 768 0)[QSFP_DD_MODULE_TYPE_OFFSET := 0x03]) QSFP_DD_EEPROM_5PAG \<noteq>
     Some [PRINT_TEMP ''Module temperature'' 0, PRINT_VCC ''Module voltage'' 0]"
  using gate_as_coded [of "(replicate 768 0)[QSFP_DD_MODULE_TYPE_OFFSET := 0x03]" QSFP_DD_EEPROM_5PAG]
  by (simp add: QSFP_DD_MODULE_TYPE_OFFSET_def QSFP_DD_MT_MMF_def QSFP_DD_MT_SMF_def
      QSFP_DD_CURR_TEMP_OFFSET_def QSFP_DD_CURR_CURR_OFFSET_def u16_be_def)

text \<open>
  C2. The claim: on every 256-byte buffer the decode succeeds without diagnostics, whatever
  the module-type byte. On a 256-byte buffer declared as 256 bytes the function does so
  when the module type is neither MMF nor SMF. With the module type MMF or SMF the test
  does not return, and \<^verbatim>\<open>qsfp_dd_parse_diagnostics\<close> reads at the offsets 384 to 713, beyond
  the 256 bytes.
\<close>

theorem sig_optical_pwr_256:
  assumes "length idb = 256"
  shows "qsfp_dd_show_sig_optical_pwr idb 256 =
           (if idb ! QSFP_DD_MODULE_TYPE_OFFSET = QSFP_DD_MT_MMF \<or>
               idb ! QSFP_DD_MODULE_TYPE_OFFSET = QSFP_DD_MT_SMF
            then None
            else Some [PRINT_TEMP ''Module temperature''
                         (sint (u16_be (idb ! QSFP_DD_CURR_TEMP_OFFSET)
                                       (idb ! (QSFP_DD_CURR_TEMP_OFFSET + 1)))),
                       PRINT_VCC ''Module voltage''
                         (u16_be (idb ! QSFP_DD_CURR_CURR_OFFSET)
                                 (idb ! (QSFP_DD_CURR_CURR_OFFSET + 1)))])"
proof (cases "idb ! QSFP_DD_MODULE_TYPE_OFFSET = QSFP_DD_MT_MMF \<or>
               idb ! QSFP_DD_MODULE_TYPE_OFFSET = QSFP_DD_MT_SMF")
  case True
  moreover have "length idb < 714" using assms by simp
  ultimately have "qsfp_dd_show_sig_optical_pwr idb 256 = None"
    by (intro sig_optical_pwr_outside) auto
  with True show ?thesis by simp
next
  case False
  moreover have "QSFP_DD_MODULE_TYPE_OFFSET < length idb"
    using assms by (simp add: QSFP_DD_MODULE_TYPE_OFFSET_def)
  moreover have "(256 :: u32) \<noteq> QSFP_DD_EEPROM_5PAG" by (simp add: QSFP_DD_EEPROM_5PAG_def)
  ultimately show ?thesis by (simp add: sig_optical_pwr_absent)
qed

theorem sig_optical_pwr_256_witness:
  "length ((replicate 256 0)[QSFP_DD_MODULE_TYPE_OFFSET := QSFP_DD_MT_MMF]) = 256 \<and>
   qsfp_dd_show_sig_optical_pwr ((replicate 256 0)[QSFP_DD_MODULE_TYPE_OFFSET := QSFP_DD_MT_MMF]) 256 = None \<and>
   OFFSET_TO_U16 ((replicate 256 0)[QSFP_DD_MODULE_TYPE_OFFSET := QSFP_DD_MT_MMF])
     QSFP_DD_TX_BIAS_START_OFFSET = None"
  using sig_optical_pwr_256 [of "(replicate 256 0)[QSFP_DD_MODULE_TYPE_OFFSET := QSFP_DD_MT_MMF]"]
  by (simp add: QSFP_DD_MODULE_TYPE_OFFSET_def OFFSET_TO_U16_None diag_consts)

subsection \<open>Reads and the declared length\<close>




subsection \<open>The lanes\<close>

text \<open>
  C4. On a 768-byte buffer (declared as such) whose module type is MMF or SMF, the
  diagnostics are read and printed: \<^verbatim>\<open>scd\<close> has \<^verbatim>\<open>QSFP_DD_MAX_CHANNELS\<close> = 8 entries, and the
  bias current, the transmit power and the receive power of lane \<open>i\<close> are the big-endian
  16-bit values at the offsets \<^verbatim>\<open>QSFP_DD_TX_BIAS_START_OFFSET\<close> + 2 \<open>i\<close>,
  \<^verbatim>\<open>QSFP_DD_TX_PWR_START_OFFSET\<close> + 2 \<open>i\<close> and \<^verbatim>\<open>QSFP_DD_RX_PWR_START_OFFSET\<close> + 2 \<open>i\<close>; they are
  the values of the lines printed for the lane.
\<close>

theorem channel_diagnostics_768:
  assumes "length idb = 768"
    and "idb ! QSFP_DD_MODULE_TYPE_OFFSET = QSFP_DD_MT_MMF \<or>
         idb ! QSFP_DD_MODULE_TYPE_OFFSET = QSFP_DD_MT_SMF"
  shows "\<exists>sd out.
     qsfp_dd_parse_diagnostics idb sd_zero = Some sd \<and>
     qsfp_dd_show_sig_optical_pwr idb QSFP_DD_EEPROM_5PAG = Some out \<and>
     length (scd sd) = QSFP_DD_MAX_CHANNELS \<and>
     (\<forall>i<QSFP_DD_MAX_CHANNELS.
        OFFSET_TO_U16 idb (QSFP_DD_TX_BIAS_START_OFFSET + i * 2) =
          Some (qsfp_dd_channel_diags.bias_cur (scd sd ! i)) \<and>
        OFFSET_TO_U16 idb (QSFP_DD_TX_PWR_START_OFFSET + i * 2) =
          Some (qsfp_dd_channel_diags.tx_power (scd sd ! i)) \<and>
        OFFSET_TO_U16 idb (QSFP_DD_RX_PWR_START_OFFSET + i * 2) =
          Some (qsfp_dd_channel_diags.rx_power (scd sd ! i)) \<and>
        unat (qsfp_dd_channel_diags.bias_cur (scd sd ! i)) =
          256 * unat (idb ! (QSFP_DD_TX_BIAS_START_OFFSET + i * 2)) +
          unat (idb ! (QSFP_DD_TX_BIAS_START_OFFSET + i * 2 + 1)) \<and>
        unat (qsfp_dd_channel_diags.tx_power (scd sd ! i)) =
          256 * unat (idb ! (QSFP_DD_TX_PWR_START_OFFSET + i * 2)) +
          unat (idb ! (QSFP_DD_TX_PWR_START_OFFSET + i * 2 + 1)) \<and>
        unat (qsfp_dd_channel_diags.rx_power (scd sd ! i)) =
          256 * unat (idb ! (QSFP_DD_RX_PWR_START_OFFSET + i * 2)) +
          unat (idb ! (QSFP_DD_RX_PWR_START_OFFSET + i * 2 + 1)) \<and>
        out ! (2 + i) = PRINT_BIAS (cs ''Tx bias current monitor'' (i + 1))
                          (qsfp_dd_channel_diags.bias_cur (scd sd ! i)) \<and>
        out ! (10 + i) = PRINT_xX_PWR (cs ''Tx output optical power'' (i + 1))
                           (qsfp_dd_channel_diags.tx_power (scd sd ! i)) \<and>
        out ! (18 + i) = PRINT_xX_PWR (cs ''Rx input optical power'' (i + 1))
                           (qsfp_dd_channel_diags.rx_power (scd sd ! i)))"
proof -
  have len: "714 \<le> length idb" using assms(1) by simp
  obtain sd where sd: "qsfp_dd_parse_diagnostics idb sd_zero = Some sd"
    using parse_diagnostics_closed [OF len] by blast
  note f = parse_diagnostics_fields [OF sd]
  have gate: "idb ! QSFP_DD_MODULE_TYPE_OFFSET = QSFP_DD_MT_MMF \<or>
         idb ! QSFP_DD_MODULE_TYPE_OFFSET = QSFP_DD_MT_SMF \<or>
         QSFP_DD_EEPROM_5PAG = QSFP_DD_EEPROM_5PAG"
    using assms(2) by blast
  note out = sig_optical_pwr_present [OF len gate sd]
  have n: "length (scd sd) = QSFP_DD_MAX_CHANNELS"
    by (simp add: f(8) QSFP_DD_MAX_CHANNELS_def)
  have "OFFSET_TO_U16 idb (QSFP_DD_TX_BIAS_START_OFFSET + i * 2) =
          Some (qsfp_dd_channel_diags.bias_cur (scd sd ! i)) \<and>
        OFFSET_TO_U16 idb (QSFP_DD_TX_PWR_START_OFFSET + i * 2) =
          Some (qsfp_dd_channel_diags.tx_power (scd sd ! i)) \<and>
        OFFSET_TO_U16 idb (QSFP_DD_RX_PWR_START_OFFSET + i * 2) =
          Some (qsfp_dd_channel_diags.rx_power (scd sd ! i))"
    if "i < QSFP_DD_MAX_CHANNELS" for i
    using that len
    by (simp add: f(8) OFFSET_TO_U16_Some diag_consts mult.commute del: upt.simps)
  moreover have "unat (qsfp_dd_channel_diags.bias_cur (scd sd ! i)) =
          256 * unat (idb ! (QSFP_DD_TX_BIAS_START_OFFSET + i * 2)) +
          unat (idb ! (QSFP_DD_TX_BIAS_START_OFFSET + i * 2 + 1)) \<and>
        unat (qsfp_dd_channel_diags.tx_power (scd sd ! i)) =
          256 * unat (idb ! (QSFP_DD_TX_PWR_START_OFFSET + i * 2)) +
          unat (idb ! (QSFP_DD_TX_PWR_START_OFFSET + i * 2 + 1)) \<and>
        unat (qsfp_dd_channel_diags.rx_power (scd sd ! i)) =
          256 * unat (idb ! (QSFP_DD_RX_PWR_START_OFFSET + i * 2)) +
          unat (idb ! (QSFP_DD_RX_PWR_START_OFFSET + i * 2 + 1))"
    if "i < QSFP_DD_MAX_CHANNELS" for i
    using that
    by (simp add: f(8) u16_be_value QSFP_DD_MAX_CHANNELS_def mult.commute del: upt.simps)
  moreover have "the (qsfp_dd_show_sig_optical_pwr idb QSFP_DD_EEPROM_5PAG) ! (2 + i) =
          PRINT_BIAS (cs ''Tx bias current monitor'' (i + 1))
            (qsfp_dd_channel_diags.bias_cur (scd sd ! i)) \<and>
        the (qsfp_dd_show_sig_optical_pwr idb QSFP_DD_EEPROM_5PAG) ! (10 + i) =
          PRINT_xX_PWR (cs ''Tx output optical power'' (i + 1))
            (qsfp_dd_channel_diags.tx_power (scd sd ! i)) \<and>
        the (qsfp_dd_show_sig_optical_pwr idb QSFP_DD_EEPROM_5PAG) ! (18 + i) =
          PRINT_xX_PWR (cs ''Rx input optical power'' (i + 1))
            (qsfp_dd_channel_diags.rx_power (scd sd ! i))"
    if "i < QSFP_DD_MAX_CHANNELS" for i
    using sig_optical_pwr_channel_lines [OF len gate sd that] by simp
  ultimately show ?thesis using sd out n by auto
qed

theorem channel_diagnostics_768_witness:
  "length ((replicate 768 0)[QSFP_DD_MODULE_TYPE_OFFSET := QSFP_DD_MT_MMF, 683 := 0x2A]) = 768 \<and>
   (replicate 768 0)[QSFP_DD_MODULE_TYPE_OFFSET := QSFP_DD_MT_MMF, 683 := 0x2A] ! QSFP_DD_MODULE_TYPE_OFFSET =
     QSFP_DD_MT_MMF \<and>
   (\<exists>sd out.
      qsfp_dd_parse_diagnostics
        ((replicate 768 0)[QSFP_DD_MODULE_TYPE_OFFSET := QSFP_DD_MT_MMF, 683 := 0x2A]) sd_zero = Some sd \<and>
      qsfp_dd_show_sig_optical_pwr
        ((replicate 768 0)[QSFP_DD_MODULE_TYPE_OFFSET := QSFP_DD_MT_MMF, 683 := 0x2A])
        QSFP_DD_EEPROM_5PAG = Some out \<and>
      length (scd sd) = 8 \<and>
      qsfp_dd_channel_diags.bias_cur (scd sd ! 0) = 42 \<and>
      out ! 2 = PRINT_BIAS ''Tx bias current monitor (Channel 1)'' 42)"
proof -
  let ?b = "(replicate 768 0)[QSFP_DD_MODULE_TYPE_OFFSET := QSFP_DD_MT_MMF, 683 := 0x2A]"
  have l: "length ?b = 768" by simp
  have t: "?b ! QSFP_DD_MODULE_TYPE_OFFSET = QSFP_DD_MT_MMF"
    by (simp add: QSFP_DD_MODULE_TYPE_OFFSET_def)
  from channel_diagnostics_768 [OF l disjI1 [OF t]]
  obtain sd out where sd: "qsfp_dd_parse_diagnostics ?b sd_zero = Some sd"
    and out: "qsfp_dd_show_sig_optical_pwr ?b QSFP_DD_EEPROM_5PAG = Some out"
    and n: "length (scd sd) = QSFP_DD_MAX_CHANNELS"
    and ch: "\<forall>i<QSFP_DD_MAX_CHANNELS.
        OFFSET_TO_U16 ?b (QSFP_DD_TX_BIAS_START_OFFSET + i * 2) =
          Some (qsfp_dd_channel_diags.bias_cur (scd sd ! i)) \<and>
        OFFSET_TO_U16 ?b (QSFP_DD_TX_PWR_START_OFFSET + i * 2) =
          Some (qsfp_dd_channel_diags.tx_power (scd sd ! i)) \<and>
        OFFSET_TO_U16 ?b (QSFP_DD_RX_PWR_START_OFFSET + i * 2) =
          Some (qsfp_dd_channel_diags.rx_power (scd sd ! i)) \<and>
        unat (qsfp_dd_channel_diags.bias_cur (scd sd ! i)) =
          256 * unat (?b ! (QSFP_DD_TX_BIAS_START_OFFSET + i * 2)) +
          unat (?b ! (QSFP_DD_TX_BIAS_START_OFFSET + i * 2 + 1)) \<and>
        unat (qsfp_dd_channel_diags.tx_power (scd sd ! i)) =
          256 * unat (?b ! (QSFP_DD_TX_PWR_START_OFFSET + i * 2)) +
          unat (?b ! (QSFP_DD_TX_PWR_START_OFFSET + i * 2 + 1)) \<and>
        unat (qsfp_dd_channel_diags.rx_power (scd sd ! i)) =
          256 * unat (?b ! (QSFP_DD_RX_PWR_START_OFFSET + i * 2)) +
          unat (?b ! (QSFP_DD_RX_PWR_START_OFFSET + i * 2 + 1)) \<and>
        out ! (2 + i) = PRINT_BIAS (cs ''Tx bias current monitor'' (i + 1))
                          (qsfp_dd_channel_diags.bias_cur (scd sd ! i)) \<and>
        out ! (10 + i) = PRINT_xX_PWR (cs ''Tx output optical power'' (i + 1))
                           (qsfp_dd_channel_diags.tx_power (scd sd ! i)) \<and>
        out ! (18 + i) = PRINT_xX_PWR (cs ''Rx input optical power'' (i + 1))
                           (qsfp_dd_channel_diags.rx_power (scd sd ! i))"
    by blast
  have "0 < QSFP_DD_MAX_CHANNELS" by (simp add: QSFP_DD_MAX_CHANNELS_def)
  with ch have "OFFSET_TO_U16 ?b (QSFP_DD_TX_BIAS_START_OFFSET + 0 * 2) =
          Some (qsfp_dd_channel_diags.bias_cur (scd sd ! 0))"
    and o: "out ! (2 + 0) = PRINT_BIAS (cs ''Tx bias current monitor'' (0 + 1))
                          (qsfp_dd_channel_diags.bias_cur (scd sd ! 0))"
    by blast+
  then have b: "qsfp_dd_channel_diags.bias_cur (scd sd ! 0) = 42"
    by (simp add: OFFSET_TO_U16_Some diag_consts u16_be_def)
  with o have "out ! 2 = PRINT_BIAS ''Tx bias current monitor (Channel 1)'' 42"
    by (simp add: cs_def dec.simps)
  with l t sd out n b show ?thesis by (simp add: QSFP_DD_MAX_CHANNELS_def)
qed

text \<open>
  C8. Two buffers that differ in bit \<open>k\<close> of one alarm byte only (the class \<open>c\<close> among
  \<open>HA\<close>, \<open>LA\<close>, \<open>HW\<close>, \<open>LW\<close>, for Tx or for Rx) give the same diagnostics but for the flag
  of lane \<open>k\<close> and class \<open>c\<close> in that direction, which is negated: every other flag, of
  every lane, class and direction, and every other field is the same.
\<close>

theorem aw_flip_one_bit:
  assumes "qsfp_dd_parse_diagnostics idb sd_zero = Some sd"
    and "k < QSFP_DD_MAX_CHANNELS"
    and "c < 4"
    and "tx = [QSFP_DD_TX_HA_OFFSET, QSFP_DD_TX_LA_OFFSET, QSFP_DD_TX_HW_OFFSET, QSFP_DD_TX_LW_OFFSET] ! c"
    and "rx = [QSFP_DD_RX_HA_OFFSET, QSFP_DD_RX_LA_OFFSET, QSFP_DD_RX_HW_OFFSET, QSFP_DD_RX_LW_OFFSET] ! c"
  shows "qsfp_dd_parse_diagnostics (idb[tx := idb ! tx XOR push_bit k 1]) sd_zero =
           Some (sd\<lparr>txaw := (txaw sd)[k := (txaw sd ! k)[c := \<not> txaw sd ! k ! c]]\<rparr>) \<and>
         qsfp_dd_parse_diagnostics (idb[rx := idb ! rx XOR push_bit k 1]) sd_zero =
           Some (sd\<lparr>rxaw := (rxaw sd)[k := (rxaw sd ! k)[c := \<not> rxaw sd ! k ! c]]\<rparr>)"
proof -
  have len: "714 \<le> length idb" using assms(1) by (rule parse_diagnostics_Some_length)
  have k: "k < 8" using assms(2) by (simp add: QSFP_DD_MAX_CHANNELS_def)
  have tx: "tx = QSFP_DD_TX_HA_OFFSET + c" and rx: "rx = QSFP_DD_RX_HA_OFFSET + c"
    using assms(3,4,5) aw_offsets by simp_all
  have txm: "QSFP_DD_TX_HA_OFFSET + 3 < length idb" and rxm: "QSFP_DD_RX_HA_OFFSET + 3 < length idb"
    using len by (simp_all add: diag_consts)
  note f = parse_diagnostics_fields [OF assms(1)]
  have "qsfp_dd_parse_diagnostics (idb[tx := idb ! tx XOR push_bit k 1]) sd_zero =
           Some (sd\<lparr>txaw := (txaw sd)[k := (txaw sd ! k)[c := \<not> txaw sd ! k ! c]]\<rparr>)"
  proof -
    obtain sd' where sd': "qsfp_dd_parse_diagnostics (idb[tx := idb ! tx XOR push_bit k 1]) sd_zero = Some sd'"
      using parse_diagnostics_closed [of "idb[tx := idb ! tx XOR push_bit k 1]"] len by auto
    note f' = parse_diagnostics_fields [OF sd', unfolded tx]
    have "sd' = sd\<lparr>txaw := (txaw sd)[k := (txaw sd ! k)[c := \<not> txaw sd ! k ! c]]\<rparr>"
    proof (rule qsfp_dd_diags.equality)
      show "txaw sd' = txaw (sd\<lparr>txaw := (txaw sd)[k := (txaw sd ! k)[c := \<not> txaw sd ! k ! c]]\<rparr>)"
        by (simp only: f'(7) f(7) aw_matrix_flip [OF k \<open>c < 4\<close> txm]) simp
    qed (use \<open>c < 4\<close> in \<open>simp_all add: f f' diag_consts del: upt.simps\<close>)
    with sd' show ?thesis by simp
  qed
  moreover have "qsfp_dd_parse_diagnostics (idb[rx := idb ! rx XOR push_bit k 1]) sd_zero =
           Some (sd\<lparr>rxaw := (rxaw sd)[k := (rxaw sd ! k)[c := \<not> rxaw sd ! k ! c]]\<rparr>)"
  proof -
    obtain sd' where sd': "qsfp_dd_parse_diagnostics (idb[rx := idb ! rx XOR push_bit k 1]) sd_zero = Some sd'"
      using parse_diagnostics_closed [of "idb[rx := idb ! rx XOR push_bit k 1]"] len by auto
    note f' = parse_diagnostics_fields [OF sd', unfolded rx]
    have "sd' = sd\<lparr>rxaw := (rxaw sd)[k := (rxaw sd ! k)[c := \<not> rxaw sd ! k ! c]]\<rparr>"
    proof (rule qsfp_dd_diags.equality)
      show "rxaw sd' = rxaw (sd\<lparr>rxaw := (rxaw sd)[k := (rxaw sd ! k)[c := \<not> rxaw sd ! k ! c]]\<rparr>)"
        by (simp only: f'(6) f(6) aw_matrix_flip [OF k \<open>c < 4\<close> rxm]) simp
    qed (use \<open>c < 4\<close> in \<open>simp_all add: f f' diag_consts del: upt.simps\<close>)
    with sd' show ?thesis by simp
  qed
  ultimately show ?thesis by simp
qed

theorem aw_flip_one_bit_witness:
  "qsfp_dd_parse_diagnostics (replicate 768 0) sd_zero = Some sd_zero \<and>
   3 < QSFP_DD_MAX_CHANNELS \<and> (1 :: nat) < 4 \<and>
   QSFP_DD_TX_LA_OFFSET =
     [QSFP_DD_TX_HA_OFFSET, QSFP_DD_TX_LA_OFFSET, QSFP_DD_TX_HW_OFFSET, QSFP_DD_TX_LW_OFFSET] ! 1 \<and>
   QSFP_DD_RX_LA_OFFSET =
     [QSFP_DD_RX_HA_OFFSET, QSFP_DD_RX_LA_OFFSET, QSFP_DD_RX_HW_OFFSET, QSFP_DD_RX_LW_OFFSET] ! 1 \<and>
   qsfp_dd_parse_diagnostics ((replicate 768 0)[QSFP_DD_TX_LA_OFFSET := 0x08]) sd_zero =
     Some (sd_zero\<lparr>txaw := [[False, False, False, False], [False, False, False, False],
                              [False, False, False, False], [False, True, False, False],
                              [False, False, False, False], [False, False, False, False],
                              [False, False, False, False], [False, False, False, False]]\<rparr>) \<and>
   qsfp_dd_parse_diagnostics ((replicate 768 0)[QSFP_DD_RX_LA_OFFSET := 0x08]) sd_zero =
     Some (sd_zero\<lparr>rxaw := [[False, False, False, False], [False, False, False, False],
                              [False, False, False, False], [False, True, False, False],
                              [False, False, False, False], [False, False, False, False],
                              [False, False, False, False], [False, False, False, False]]\<rparr>)"
proof -
  have z: "qsfp_dd_parse_diagnostics (replicate 768 0) sd_zero = Some sd_zero"
    by (rule parse_zero_buffer) simp
  have k: "3 < QSFP_DD_MAX_CHANNELS" by (simp add: QSFP_DD_MAX_CHANNELS_def)
  have c: "(1 :: nat) < 4" by simp
  have tx: "QSFP_DD_TX_LA_OFFSET =
     [QSFP_DD_TX_HA_OFFSET, QSFP_DD_TX_LA_OFFSET, QSFP_DD_TX_HW_OFFSET, QSFP_DD_TX_LW_OFFSET] ! 1"
    and rx: "QSFP_DD_RX_LA_OFFSET =
     [QSFP_DD_RX_HA_OFFSET, QSFP_DD_RX_LA_OFFSET, QSFP_DD_RX_HW_OFFSET, QSFP_DD_RX_LW_OFFSET] ! 1"
    by simp_all
  from aw_flip_one_bit [OF z k c tx rx] z k tx rx show ?thesis
    by (simp add: sd_zero_def diag_consts replicate_4 replicate_8 list_update_Cons_numeral)
qed

subsection \<open>The current temperature\<close>

text \<open>
  C9. With a 768-byte buffer, the module type SMF and the bytes \<^verbatim>\<open>0x19\<close>, \<^verbatim>\<open>0x80\<close> at
  \<^verbatim>\<open>QSFP_DD_CURR_TEMP_OFFSET\<close>, the first line printed is the module temperature with the
  value \<^verbatim>\<open>0x1980\<close> = 6528, which is 25.5 degrees Celsius at 1/256 degree per LSB.
\<close>

theorem curr_temp_example:
  assumes "length idb = 768"
    and "idb ! QSFP_DD_MODULE_TYPE_OFFSET = QSFP_DD_MT_SMF"
    and "idb ! QSFP_DD_CURR_TEMP_OFFSET = 0x19"
    and "idb ! (QSFP_DD_CURR_TEMP_OFFSET + 1) = 0x80"
  shows "OFFSET_TO_TEMP idb QSFP_DD_CURR_TEMP_OFFSET = Some 6528 \<and>
         map_option hd (qsfp_dd_show_sig_optical_pwr idb QSFP_DD_EEPROM_5PAG) =
           Some (PRINT_TEMP ''Module temperature'' 6528) \<and>
         temp_celsius 6528 = 255 / 10"
proof -
  have len: "714 \<le> length idb" using assms(1) by simp
  obtain sd where sd: "qsfp_dd_parse_diagnostics idb sd_zero = Some sd"
    using parse_diagnostics_closed [OF len] by blast
  have gate: "idb ! QSFP_DD_MODULE_TYPE_OFFSET = QSFP_DD_MT_MMF \<or>
         idb ! QSFP_DD_MODULE_TYPE_OFFSET = QSFP_DD_MT_SMF \<or>
         QSFP_DD_EEPROM_5PAG = QSFP_DD_EEPROM_5PAG"
    using assms(2) by blast
  have t: "sint (u16_be (idb ! QSFP_DD_CURR_TEMP_OFFSET) (idb ! (QSFP_DD_CURR_TEMP_OFFSET + 1))) = 6528"
    using assms(3,4) by (simp add: u16_be_def)
  have "OFFSET_TO_TEMP idb QSFP_DD_CURR_TEMP_OFFSET = Some 6528"
    using len t by (simp add: OFFSET_TO_TEMP_Some QSFP_DD_CURR_TEMP_OFFSET_def)
  moreover have "map_option hd (qsfp_dd_show_sig_optical_pwr idb QSFP_DD_EEPROM_5PAG) =
           Some (PRINT_TEMP ''Module temperature'' 6528)"
    unfolding sig_optical_pwr_present [OF len gate sd] t by simp
  moreover have "temp_celsius 6528 = 255 / 10" by (simp add: temp_celsius_def)
  ultimately show ?thesis by simp
qed

theorem curr_temp_example_witness:
  "length ((replicate 768 0)[QSFP_DD_MODULE_TYPE_OFFSET := QSFP_DD_MT_SMF, 14 := 0x19, 15 := 0x80]) = 768 \<and>
   (replicate 768 0)[QSFP_DD_MODULE_TYPE_OFFSET := QSFP_DD_MT_SMF, 14 := 0x19, 15 := 0x80] !
     QSFP_DD_MODULE_TYPE_OFFSET = QSFP_DD_MT_SMF \<and>
   (replicate 768 0)[QSFP_DD_MODULE_TYPE_OFFSET := QSFP_DD_MT_SMF, 14 := 0x19, 15 := 0x80] !
     QSFP_DD_CURR_TEMP_OFFSET = 0x19 \<and>
   (replicate 768 0)[QSFP_DD_MODULE_TYPE_OFFSET := QSFP_DD_MT_SMF, 14 := 0x19, 15 := 0x80] !
     (QSFP_DD_CURR_TEMP_OFFSET + 1) = 0x80 \<and>
   map_option hd (qsfp_dd_show_sig_optical_pwr
     ((replicate 768 0)[QSFP_DD_MODULE_TYPE_OFFSET := QSFP_DD_MT_SMF, 14 := 0x19, 15 := 0x80])
     QSFP_DD_EEPROM_5PAG) = Some (PRINT_TEMP ''Module temperature'' 6528) \<and>
   temp_celsius 6528 = 255 / 10"
  using curr_temp_example
    [of "(replicate 768 0)[QSFP_DD_MODULE_TYPE_OFFSET := QSFP_DD_MT_SMF, 14 := 0x19, 15 := 0x80]"]
  by (simp add: QSFP_DD_MODULE_TYPE_OFFSET_def QSFP_DD_CURR_TEMP_OFFSET_def)

end
